theory Spec2Isabelle
  imports Complex_Main
begin

section \<open>JSON values\<close>

text \<open>
  The records handled by \<^verbatim>\<open>cli.js\<close> are the values produced by \<^verbatim>\<open>JSON.parse\<close>.
  An object is kept as the list of its members, a parsed object having each name once;
  \<open>member\<close> reads a property the way \<^verbatim>\<open>data[prop]\<close> does, giving \<open>None\<close> where
  JavaScript gives \<^verbatim>\<open>undefined\<close>.
  The payload of a number is never inspected by the program.
\<close>

datatype json =
    JNull
  | JBool bool
  | JNum real
  | JStr string
  | JArr "json list"
  | JObj "(string \<times> json) list"

definition member :: "(string \<times> json) list \<Rightarrow> string \<Rightarrow> json option" where
  "member ms k = map_of ms k"

section \<open>The schema and the compiled validator\<close>

text \<open>
  \<^verbatim>\<open>xAPISchema\<close> (cli.js 14-38) uses three JSON-Schema keywords: \<^verbatim>\<open>type\<close>,
  \<^verbatim>\<open>properties\<close> and \<^verbatim>\<open>required\<close>. A schema is the triple of those three.
\<close>

datatype jtype = T_null | T_boolean | T_number | T_string | T_array | T_object

datatype schema =
  Schema (s_type: "jtype option") (s_properties: "(string \<times> schema) list") (s_required: "string list")

definition xAPISchema :: schema where
  "xAPISchema =
     Schema (Some T_object)
       [(''actor'',
           Schema (Some T_object)
             [(''name'', Schema (Some T_string) [] []),
              (''mbox'', Schema (Some T_string) [] [])]
             [''name'', ''mbox'']),
        (''verb'',
           Schema (Some T_object)
             [(''id'', Schema (Some T_string) [] []),
              (''display'', Schema (Some T_object) [] [])]
             [''id'', ''display'']),
        (''object'', Schema (Some T_object) [] [])]
       [''actor'', ''verb'', ''object'']"

text \<open>
  An error object of the validator: the keyword that failed, the path of the value it
  failed on (the list of property names from the root) and the keyword's parameter
  (the missing property, or the expected type).
\<close>

datatype ajv_error =
    MissingProperty "string list" string
  | WrongType "string list" jtype

text \<open>
  \<^verbatim>\<open>const ajv = new Ajv()\<close> (cli.js 40) passes no options. The option that decides
  how many errors a validation collects is \<^verbatim>\<open>allErrors\<close>; the library's default is
  \<^verbatim>\<open>false\<close>: validation returns after the first failing keyword.
\<close>

record ajv_options =
  allErrors :: bool

definition ajv :: ajv_options where
  "ajv = \<lparr>allErrors = False\<rparr>"

text \<open>
  The repository names no version of the library behind \<^verbatim>\<open>require("ajv")\<close>, and two
  generations of it differ in where a missing required property is found. From version
  7 on (\<open>Ajv8\<close>) the keyword \<^verbatim>\<open>required\<close> tests every listed name and runs before
  \<^verbatim>\<open>properties\<close>. In version 6 (\<open>Ajv6\<close>), on a schema that has properties, a
  listed name whose property has a sub-schema with keywords is left to
  \<^verbatim>\<open>properties\<close>: that keyword visits the properties in the order they are written
  and reports the name when the value lacks the property; \<^verbatim>\<open>required\<close> tests the
  remaining names only.
\<close>

datatype ajv_version = Ajv6 | Ajv8

text \<open>The library's type test; an array and \<^verbatim>\<open>null\<close> are not of type object.\<close>

fun checkDataType :: "jtype \<Rightarrow> json \<Rightarrow> bool" where
  "checkDataType T_null JNull = True"
| "checkDataType T_boolean (JBool b) = True"
| "checkDataType T_number (JNum r) = True"
| "checkDataType T_string (JStr s) = True"
| "checkDataType T_array (JArr xs) = True"
| "checkDataType T_object (JObj ms) = True"
| "checkDataType t v = False"

text \<open>A sub-schema with no keyword is always valid and generates no test.\<close>

definition has_rules :: "schema \<Rightarrow> bool" where
  "has_rules s = (\<not> (s_type s = None \<and> s_properties s = [] \<and> s_required s = []))"

definition has_subschema :: "(string \<times> schema) list \<Rightarrow> string \<Rightarrow> bool" where
  "has_subschema props k = (case map_of props k of None \<Rightarrow> False | Some s \<Rightarrow> has_rules s)"

text \<open>The names that the keyword \<^verbatim>\<open>required\<close> itself tests.\<close>

definition required_by_keyword ::
  "ajv_version \<Rightarrow> (string \<times> schema) list \<Rightarrow> string list \<Rightarrow> string list" where
  "required_by_keyword lib props req =
     (case lib of
        Ajv8 \<Rightarrow> req
      | Ajv6 \<Rightarrow> if props = [] then req else filter (\<lambda>k. \<not> has_subschema props k) req)"

text \<open>
  The \<^verbatim>\<open>required\<close> keyword on the names it tests. With \<^verbatim>\<open>allErrors\<close> off the
  generated test is the disjunction over the names in order and reports the first
  missing one; with it on every missing name is reported.
\<close>

definition missing_props :: "string list \<Rightarrow> (string \<times> json) list \<Rightarrow> string list" where
  "missing_props req ms = filter (\<lambda>k. member ms k = None) req"

definition check_required ::
  "ajv_options \<Rightarrow> string list \<Rightarrow> string list \<Rightarrow> (string \<times> json) list \<Rightarrow> ajv_error list" where
  "check_required opts path req ms =
     (case missing_props req ms of
        [] \<Rightarrow> []
      | k # ks \<Rightarrow> if allErrors opts then map (MissingProperty path) (k # ks)
                 else [MissingProperty path k])"

text \<open>
  The function that \<^verbatim>\<open>ajv.compile\<close> returns, run on a value. The type is tested
  first (\<open>wrong_type\<close> gives the expected type when the test fails). On an object
  \<^verbatim>\<open>required\<close> runs before \<^verbatim>\<open>properties\<close>. \<^verbatim>\<open>properties\<close> visits the schema's
  properties in the order they are written: a property that the value has is validated
  against its sub-schema; one that it lacks is passed over, or, in the older
  generation, reported when its name is listed as required. With \<^verbatim>\<open>allErrors\<close> off,
  the first keyword or property that fails ends the validation.
\<close>

definition wrong_type :: "jtype option \<Rightarrow> json \<Rightarrow> jtype option" where
  "wrong_type ty v =
     (case ty of
        None \<Rightarrow> None
      | Some t \<Rightarrow> if checkDataType t v then None else Some t)"

fun validate_schema ::
  "ajv_version \<Rightarrow> ajv_options \<Rightarrow> schema \<Rightarrow> string list \<Rightarrow> json \<Rightarrow> ajv_error list"
and validate_properties ::
  "ajv_version \<Rightarrow> ajv_options \<Rightarrow> string list \<Rightarrow> (string \<times> schema) list \<Rightarrow> string list \<Rightarrow>
   (string \<times> json) list \<Rightarrow> ajv_error list"
where
  "validate_schema lib opts (Schema ty props req) path v =
     (case wrong_type ty v of
        Some t \<Rightarrow> [WrongType path t]
      | None \<Rightarrow>
          (case v of
             JObj ms \<Rightarrow>
               (let es = check_required opts path (required_by_keyword lib props req) ms in
                if es \<noteq> [] \<and> \<not> allErrors opts then es
                else es @ validate_properties lib opts req props path ms)
           | _ \<Rightarrow> []))"
| "validate_properties lib opts req [] path ms = []"
| "validate_properties lib opts req ((k, s) # props) path ms =
     (if \<not> has_rules s then validate_properties lib opts req props path ms
      else
        (case member ms k of
           None \<Rightarrow>
             (if lib = Ajv6 \<and> k \<in> set req then
                (if allErrors opts
                 then MissingProperty path k # validate_properties lib opts req props path ms
                 else [MissingProperty path k])
              else validate_properties lib opts req props path ms)
         | Some v \<Rightarrow>
             (let es = validate_schema lib opts s (path @ [k]) v in
              if es \<noteq> [] \<and> \<not> allErrors opts then es
              else es @ validate_properties lib opts req props path ms)))"

text \<open>
  \<^verbatim>\<open>const validate = ajv.compile(xAPISchema)\<close> (cli.js 41), for the library \<open>lib\<close>
  that is installed. A call returns the verdict and leaves the error list in
  \<^verbatim>\<open>validate.errors\<close>.
\<close>

definition validate_errors :: "ajv_version \<Rightarrow> json \<Rightarrow> ajv_error list" where
  "validate_errors lib data = validate_schema lib ajv xAPISchema [] data"

definition validate :: "ajv_version \<Rightarrow> json \<Rightarrow> bool" where
  "validate lib data = (validate_errors lib data = [])"

text \<open>\<^verbatim>\<open>validateStatement\<close> (cli.js 404-411); \<open>errors = None\<close> is the absent property.\<close>

record validation_result =
  valid :: bool
  errors :: "ajv_error list option"

definition validateStatement :: "ajv_version \<Rightarrow> json \<Rightarrow> validation_result" where
  "validateStatement lib data =
     (let isValid = validate lib data in
      if isValid then \<lparr>valid = True, errors = None\<rparr>
      else \<lparr>valid = False, errors = Some (validate_errors lib data)\<rparr>)"

section \<open>The process: results, outputs and the world\<close>

text \<open>
  Every function of \<^verbatim>\<open>cli.js\<close> that has an effect is a state transformer on a
  \<open>world\<close>. A run ends in one of four ways: it returns a value, it throws, it ends the
  process with an exit code (\<^verbatim>\<open>process.exit\<close>), or it waits for input that never
  comes.
\<close>

datatype err =
    SyntaxError
  | ReferenceError string
  | JsTypeError string
  | ValidationFailed "ajv_error list"
  | NoValidRecords
  | MongoError
  | BSONError
  | Json2csvError
  | ShellError
  | PromptError

datatype 'a res = Ret 'a | Throw err | Exit nat | Blocked

text \<open>
  What the process writes. \<open>LogError\<close>, \<open>LogWarn\<close> and \<open>LogInfo\<close> are the calls of
  the winston logger, \<open>Print\<close> is \<^verbatim>\<open>console.log\<close> and \<open>PrintErr\<close> is
  \<^verbatim>\<open>console.error\<close>. A printed value is a piece of text, a number substituted into a
  template string, or a JavaScript value (\<open>None\<close> is \<^verbatim>\<open>undefined\<close>).
\<close>

datatype pval = PStr string | PNat nat | PVal "json option"

datatype out =
    LogError string "err option"
  | LogWarn string
  | LogInfo "pval list"
  | Print "pval list"
  | PrintErr string err

text \<open>
  The calls that reach the database server, each with the name of the collection it is
  made on. \<open>Stats\<close> is \<^verbatim>\<open>client.db(dbName).stats()\<close>, a call on the database.
\<close>

datatype gw_op =
    InsertOne string json
  | InsertMany string "json list"
  | Find string json
  | FindSorted string json json
  | Aggregate string json
  | Distinct string string
  | CountDocuments string
  | UpdateOne string json json
  | DeleteMany string json
  | Stats

fun op_collection :: "gw_op \<Rightarrow> string option" where
  "op_collection (InsertOne c d) = Some c"
| "op_collection (InsertMany c ds) = Some c"
| "op_collection (Find c f) = Some c"
| "op_collection (FindSorted c f s) = Some c"
| "op_collection (Aggregate c p) = Some c"
| "op_collection (Distinct c k) = Some c"
| "op_collection (CountDocuments c) = Some c"
| "op_collection (UpdateOne c f u) = Some c"
| "op_collection (DeleteMany c f) = Some c"
| "op_collection Stats = None"

fun is_insert :: "gw_op \<Rightarrow> bool" where
  "is_insert (InsertOne c d) = True"
| "is_insert (InsertMany c ds) = True"
| "is_insert other = False"

text \<open>A line typed at a prompt, or a prompt that rejects.\<close>

datatype input = Line string | PromptFailure

text \<open>
  The three configuration strings (cli.js 54-56) and what lies outside the program:
  the installed validator library, \<^verbatim>\<open>JSON.parse\<close> (\<open>None\<close> where it throws a \<^verbatim>\<open>SyntaxError\<close>), whether
  \<^verbatim>\<open>client.connect()\<close> succeeds, whether the server carries a call out or the driver
  throws, what the server answers to a read, what a collection holds after an
  \<^verbatim>\<open>updateOne\<close>, the storage size it reports, and whether a shell command succeeds
  and what the database holds after it.
\<close>

record config =
  uri :: string
  dbName :: string
  collectionName :: string

record env = config +
  ajv_lib :: ajv_version
  JSON_parse :: "string \<Rightarrow> json option"
  conn_ok :: bool
  op_ok :: "gw_op \<Rightarrow> bool"
  reply :: "gw_op \<Rightarrow> json list \<Rightarrow> json list"
  updated :: "gw_op \<Rightarrow> json list \<Rightarrow> json list"
  storageSize :: "(string \<Rightarrow> json list) \<Rightarrow> nat"
  exec_ok :: "string \<Rightarrow> bool"
  exec_effect :: "string \<Rightarrow> (string \<Rightarrow> json list) \<Rightarrow> (string \<Rightarrow> json list)"

text \<open>
  The world: the collections of the database \<^verbatim>\<open>dbName\<close>, whether the shared client
  is connected, the calls made on the server so far, the shell commands started, the
  output so far, and the input still to come.
\<close>

record world =
  db :: "string \<Rightarrow> json list"
  connected :: bool
  ops :: "gw_op list"
  shell :: "string list"
  out :: "out list"
  stdin :: "input list"

type_synonym 'a prog = "world \<Rightarrow> 'a res \<times> world"

definition ret :: "'a \<Rightarrow> 'a prog" where
  "ret x w = (Ret x, w)"

definition throw :: "err \<Rightarrow> 'a prog" where
  "throw e w = (Throw e, w)"

definition bind :: "'a prog \<Rightarrow> ('a \<Rightarrow> 'b prog) \<Rightarrow> 'b prog" where
  "bind m k w =
     (case m w of
        (Ret x, w') \<Rightarrow> k x w'
      | (Throw e, w') \<Rightarrow> (Throw e, w')
      | (Exit n, w') \<Rightarrow> (Exit n, w')
      | (Blocked, w') \<Rightarrow> (Blocked, w'))"

definition seq :: "'a prog \<Rightarrow> 'b prog \<Rightarrow> 'b prog" where
  "seq m k = bind m (\<lambda>_. k)"

text \<open>\<^verbatim>\<open>try { m } catch (error) { h error }\<close>: only a throw reaches the handler.\<close>

definition try_catch :: "'a prog \<Rightarrow> (err \<Rightarrow> 'a prog) \<Rightarrow> 'a prog" where
  "try_catch m h w =
     (case m w of
        (Throw e, w') \<Rightarrow> h e w'
      | (r, w') \<Rightarrow> (r, w'))"

text \<open>
  \<^verbatim>\<open>try { m } finally { f }\<close>: \<open>f\<close> runs after a return and after a throw, and the
  result of \<open>m\<close> stands unless \<open>f\<close> itself does not return. A \<^verbatim>\<open>process.exit\<close>
  inside \<open>m\<close> ends the process at once: \<open>f\<close> does not run.
\<close>

definition try_finally :: "'a prog \<Rightarrow> unit prog \<Rightarrow> 'a prog" where
  "try_finally m f w =
     (case m w of
        (Exit n, w') \<Rightarrow> (Exit n, w')
      | (Blocked, w') \<Rightarrow> (Blocked, w')
      | (r, w') \<Rightarrow>
          (case f w' of
             (Ret u, w'') \<Rightarrow> (r, w'')
           | (Throw e, w'') \<Rightarrow> (Throw e, w'')
           | (Exit n, w'') \<Rightarrow> (Exit n, w'')
           | (Blocked, w'') \<Rightarrow> (Blocked, w'')))"

definition emit :: "out \<Rightarrow> unit prog" where
  "emit x w = (Ret (), w\<lparr>out := out w @ [x]\<rparr>)"

definition logger_error :: "string \<Rightarrow> err option \<Rightarrow> unit prog" where
  "logger_error msg e = emit (LogError msg e)"

definition logger_warn :: "string \<Rightarrow> unit prog" where
  "logger_warn msg = emit (LogWarn msg)"

definition logger_info :: "pval list \<Rightarrow> unit prog" where
  "logger_info msg = emit (LogInfo msg)"

definition console_log :: "pval list \<Rightarrow> unit prog" where
  "console_log msg = emit (Print msg)"

definition console_error :: "string \<Rightarrow> err \<Rightarrow> unit prog" where
  "console_error msg e = emit (PrintErr msg e)"

text \<open>The catch block shared by the handlers: log, then fall off the end of the function.\<close>

definition logged :: "string \<Rightarrow> err \<Rightarrow> 'a option prog" where
  "logged msg e = seq (logger_error msg (Some e)) (ret None)"

definition parse :: "env \<Rightarrow> string \<Rightarrow> json prog" where
  "parse e s = (case JSON_parse e s of None \<Rightarrow> throw SyntaxError | Some v \<Rightarrow> ret v)"

text \<open>
  \<^verbatim>\<open>cli.js\<close> never declares or requires \<^verbatim>\<open>fs\<close>: evaluating the identifier throws a
  \<^verbatim>\<open>ReferenceError\<close> before either method is reached.
\<close>

definition fs_readFileSync :: "string \<Rightarrow> string prog" where
  "fs_readFileSync path = throw (ReferenceError ''fs is not defined'')"

definition fs_writeFileSync :: "string \<Rightarrow> json list \<Rightarrow> unit prog" where
  "fs_writeFileSync path content = throw (ReferenceError ''fs is not defined'')"

section \<open>The connection\<close>

text \<open>\<^verbatim>\<open>client.close()\<close>.\<close>

definition client_close :: "unit prog" where
  "client_close w = (Ret (), w\<lparr>connected := False\<rparr>)"

text \<open>\<^verbatim>\<open>disconnect\<close> (cli.js 78-82), registered as the listener of \<^verbatim>\<open>exit\<close> (cli.js 633).\<close>

definition disconnect :: "unit prog" where
  "disconnect w = (if connected w then client_close w else (Ret (), w))"

text \<open>\<^verbatim>\<open>process.exit(n)\<close> once the listener is registered.\<close>

definition process_exit :: "nat \<Rightarrow> 'a prog" where
  "process_exit n w = (Exit n, snd (disconnect w))"

text \<open>\<^verbatim>\<open>connect\<close> (cli.js 67-76).\<close>

definition connect :: "env \<Rightarrow> unit prog" where
  "connect e w =
     (if \<not> connected w then
        (if conn_ok e then (Ret (), w\<lparr>connected := True\<rparr>)
         else seq (logger_error ''Could not connect to MongoDB:'' (Some MongoError))
                  (process_exit 1) w)
      else (Ret (), w))"

section \<open>The driver's calls\<close>

text \<open>
  A call is recorded, then the driver throws or the server carries it out. A call that
  throws leaves the collections as they were. The \<^verbatim>\<open>_id\<close> that an insert adds to a
  document is not kept.
\<close>

definition call :: "env \<Rightarrow> gw_op \<Rightarrow> unit prog" where
  "call e op w =
     (let w1 = w\<lparr>ops := ops w @ [op]\<rparr>
      in if op_ok e op then (Ret (), w1) else (Throw MongoError, w1))"

definition insertOne :: "env \<Rightarrow> string \<Rightarrow> json \<Rightarrow> unit prog" where
  "insertOne e c doc =
     seq (call e (InsertOne c doc))
         (\<lambda>w. (Ret (), w\<lparr>db := (db w)(c := db w c @ [doc])\<rparr>))"

definition insertMany :: "env \<Rightarrow> string \<Rightarrow> json list \<Rightarrow> unit prog" where
  "insertMany e c docs =
     seq (call e (InsertMany c docs))
         (\<lambda>w. (Ret (), w\<lparr>db := (db w)(c := db w c @ docs)\<rparr>))"

definition find :: "env \<Rightarrow> string \<Rightarrow> json \<Rightarrow> json list prog" where
  "find e c f =
     seq (call e (Find c f)) (\<lambda>w. (Ret (reply e (Find c f) (db w c)), w))"

definition find_sorted :: "env \<Rightarrow> string \<Rightarrow> json \<Rightarrow> json \<Rightarrow> json list prog" where
  "find_sorted e c f s =
     seq (call e (FindSorted c f s)) (\<lambda>w. (Ret (reply e (FindSorted c f s) (db w c)), w))"

definition aggregate :: "env \<Rightarrow> string \<Rightarrow> json \<Rightarrow> json list prog" where
  "aggregate e c p =
     seq (call e (Aggregate c p)) (\<lambda>w. (Ret (reply e (Aggregate c p) (db w c)), w))"

definition distinct_values :: "env \<Rightarrow> string \<Rightarrow> string \<Rightarrow> json list prog" where
  "distinct_values e c k =
     seq (call e (Distinct c k)) (\<lambda>w. (Ret (reply e (Distinct c k) (db w c)), w))"

definition countDocuments :: "env \<Rightarrow> string \<Rightarrow> nat prog" where
  "countDocuments e c =
     seq (call e (CountDocuments c)) (\<lambda>w. (Ret (length (db w c)), w))"

definition updateOne :: "env \<Rightarrow> string \<Rightarrow> json \<Rightarrow> json \<Rightarrow> unit prog" where
  "updateOne e c f u =
     seq (call e (UpdateOne c f u))
         (\<lambda>w. (Ret (), w\<lparr>db := (db w)(c := updated e (UpdateOne c f u) (db w c))\<rparr>))"

text \<open>\<^verbatim>\<open>deleteMany({})\<close>: every document matches; the result is the count deleted.\<close>

definition deleteMany :: "env \<Rightarrow> string \<Rightarrow> nat prog" where
  "deleteMany e c =
     seq (call e (DeleteMany c (JObj [])))
         (\<lambda>w. (Ret (length (db w c)), w\<lparr>db := (db w)(c := [])\<rparr>))"

definition stats :: "env \<Rightarrow> nat prog" where
  "stats e = seq (call e Stats) (\<lambda>w. (Ret (storageSize e (db w)), w))"

text \<open>
  \<^verbatim>\<open>ObjectId(s)\<close>: the driver accepts a string of 12 bytes or of 24 hexadecimal
  digits and throws on any other.
\<close>

definition is_hex :: "char \<Rightarrow> bool" where
  "is_hex c = (c \<in> set ''0123456789abcdefABCDEF'')"

definition ObjectId :: "string \<Rightarrow> json prog" where
  "ObjectId s =
     (if length s = 12 \<or> (length s = 24 \<and> list_all is_hex s)
      then ret (JObj [(''$oid'', JStr s)])
      else throw BSONError)"

text \<open>
  \<^verbatim>\<open>exec(cmd, callback)\<close> starts the command and returns at once; the callback runs
  when the command has ended. The value returned here is what the callback is then
  told, whether the command succeeded.
\<close>

definition exec :: "env \<Rightarrow> string \<Rightarrow> bool prog" where
  "exec e cmd w =
     (Ret (exec_ok e cmd), w\<lparr>shell := shell w @ [cmd], db := exec_effect e cmd (db w)\<rparr>)"

section \<open>Prompts\<close>

definition prompt :: "(string \<Rightarrow> 'a) \<Rightarrow> 'a prog" where
  "prompt f w =
     (case stdin w of
        [] \<Rightarrow> (Blocked, w)
      | PromptFailure # rest \<Rightarrow> (Throw PromptError, w\<lparr>stdin := rest\<rparr>)
      | Line s # rest \<Rightarrow> (Ret (f s), w\<lparr>stdin := rest\<rparr>))"

text \<open>
  A prompt of type \<^verbatim>\<open>confirm\<close>: an empty line gives the default, and the library's
  default of the default is \<^verbatim>\<open>true\<close>; any other line is a yes when it starts with
  \<^verbatim>\<open>y\<close> or \<^verbatim>\<open>Y\<close>.
\<close>

definition confirm_answer :: "bool option \<Rightarrow> string \<Rightarrow> bool" where
  "confirm_answer dflt s =
     (case s of
        [] \<Rightarrow> (case dflt of None \<Rightarrow> True | Some b \<Rightarrow> b)
      | c # cs \<Rightarrow> c = CHR ''y'' \<or> c = CHR ''Y'')"

definition inquirer_confirm :: "bool option \<Rightarrow> bool prog" where
  "inquirer_confirm dflt = prompt (confirm_answer dflt)"

definition inquirer_input :: "string prog" where
  "inquirer_input = prompt (\<lambda>s. s)"

section \<open>The handler functions\<close>

text \<open>
  Each function below is the function of the same name in \<^verbatim>\<open>cli.js\<close>. A function
  that ends without \<^verbatim>\<open>return\<close> gives \<open>None\<close> (\<^verbatim>\<open>undefined\<close>).
\<close>

text \<open>\<^verbatim>\<open>createRecord\<close> (cli.js 84-99).\<close>

definition createRecord :: "env \<Rightarrow> json \<Rightarrow> json option prog" where
  "createRecord e data =
     try_catch
       (seq (connect e)
         (if \<not> validate (ajv_lib e) data
          then throw (ValidationFailed (validate_errors (ajv_lib e) data))
          else seq (insertOne e (collectionName e) data)
              (seq (logger_info [PStr ''Record created successfully''])
                   (ret None))))
       (logged ''Error while creating record:'')"

text \<open>\<^verbatim>\<open>queryRecords\<close> (cli.js 101-110).\<close>

definition queryRecords :: "env \<Rightarrow> string \<Rightarrow> json option prog" where
  "queryRecords e filter_text =
     try_catch
       (seq (connect e)
         (bind (parse e filter_text) (\<lambda>f.
          bind (find e (collectionName e) f) (\<lambda>results.
          seq (console_log [PVal (Some (JArr results))])
              (ret None)))))
       (logged ''Error while querying records:'')"

text \<open>\<^verbatim>\<open>data.filter(...)\<close>: only an array has the method.\<close>

definition array_filter :: "(json \<Rightarrow> bool) \<Rightarrow> json \<Rightarrow> json list prog" where
  "array_filter p data =
     (case data of
        JArr xs \<Rightarrow> ret (filter p xs)
      | _ \<Rightarrow> throw (JsTypeError ''data.filter is not a function''))"

text \<open>\<^verbatim>\<open>bulkInsert\<close> (cli.js 112-127).\<close>

definition bulkInsert :: "env \<Rightarrow> json \<Rightarrow> json option prog" where
  "bulkInsert e data =
     try_catch
       (seq (connect e)
         (bind (array_filter (validate (ajv_lib e)) data) (\<lambda>validData.
          if validData = [] then throw NoValidRecords
          else seq (insertMany e (collectionName e) validData)
              (seq (logger_info [PNat (length validData), PStr '' records inserted successfully''])
                   (ret None)))))
       (logged ''Error during bulk insert:'')"

text \<open>\<^verbatim>\<open>listAllVerbs\<close> (cli.js 131-143).\<close>

definition listAllVerbs :: "env \<Rightarrow> json option prog" where
  "listAllVerbs e =
     try_finally
       (try_catch
         (seq (connect e)
           (bind (distinct_values e (collectionName e) ''verb.id'') (\<lambda>verbs.
            seq (console_log [PVal (Some (JArr verbs))])
                (ret (Some (JArr verbs))))))
         (logged ''Error fetching unique verbs:''))
       client_close"

text \<open>\<^verbatim>\<open>listAllActors\<close> (cli.js 145-157).\<close>

definition listAllActors :: "env \<Rightarrow> json option prog" where
  "listAllActors e =
     try_finally
       (try_catch
         (seq (connect e)
           (bind (distinct_values e (collectionName e) ''actor.mbox'') (\<lambda>actors.
            seq (console_log [PVal (Some (JArr actors))])
                (ret (Some (JArr actors))))))
         (logged ''Error fetching unique actors:''))
       client_close"

text \<open>\<^verbatim>\<open>visualizeData\<close> (cli.js 159-162).\<close>

definition visualizeData :: "string \<Rightarrow> json option prog" where
  "visualizeData filter_text =
     seq (console_log [PStr ''Visualization for filter:'', PStr filter_text]) (ret None)"

text \<open>\<^verbatim>\<open>aggregateStatements\<close> (cli.js 164-176); the pipeline is the text of the argument.\<close>

definition aggregateStatements :: "env \<Rightarrow> string \<Rightarrow> json option prog" where
  "aggregateStatements e pipeline =
     try_finally
       (try_catch
         (seq (connect e)
           (bind (aggregate e (collectionName e) (JStr pipeline)) (\<lambda>result.
            seq (console_log [PVal (Some (JArr result))])
                (ret (Some (JArr result))))))
         (logged ''Error during aggregation:''))
       client_close"

text \<open>\<^verbatim>\<open>getLRSStats\<close> (cli.js 178-189).\<close>

definition getLRSStats :: "env \<Rightarrow> json option prog" where
  "getLRSStats e =
     try_finally
       (try_catch
         (seq (connect e)
           (bind (countDocuments e (collectionName e)) (\<lambda>count.
            seq (console_log [PStr ''Total statements in LRS: '', PNat count])
                (ret None))))
         (logged ''Error retrieving LRS stats:''))
       client_close"

text \<open>\<^verbatim>\<open>groupStatementsByDate\<close> (cli.js 191-217); neither argument is used.\<close>

definition groupBy :: json where
  "groupBy =
     JObj [(''$group'',
       JObj [(''_id'',
                JObj [(''year'', JObj [(''$year'', JStr ''$timestamp'')]),
                      (''month'', JObj [(''$month'', JStr ''$timestamp'')]),
                      (''day'', JObj [(''$dayOfMonth'', JStr ''$timestamp'')])]),
             (''count'', JObj [(''$sum'', JNum 1)])])]"

definition groupStatementsByDate :: "env \<Rightarrow> string \<Rightarrow> string \<Rightarrow> json option prog" where
  "groupStatementsByDate e filter_text granularity =
     try_finally
       (try_catch
         (seq (connect e)
           (bind (aggregate e (collectionName e) (JArr [groupBy])) (\<lambda>results.
            seq (console_log [PVal (Some (JArr results))])
                (ret (Some (JArr results))))))
         (logged ''Error grouping statements by date:''))
       client_close"

text \<open>\<^verbatim>\<open>analyzeActivityInteractions\<close> (cli.js 219-233).\<close>

definition analyzeActivityInteractions :: "env \<Rightarrow> string \<Rightarrow> json option prog" where
  "analyzeActivityInteractions e activityId =
     try_finally
       (try_catch
         (seq (connect e)
           (bind (find e (collectionName e) (JObj [(''object.id'', JStr activityId)])) (\<lambda>interactions.
            seq (console_log [PVal (Some (JArr interactions))])
                (ret (Some (JArr interactions))))))
         (logged ''Error analyzing activity interactions:''))
       client_close"

text \<open>
  \<^verbatim>\<open>averageScore[0].avgScore\<close>: reading a property of \<^verbatim>\<open>undefined\<close> or of
  \<^verbatim>\<open>null\<close> throws; a value that is not an object has no such property.
\<close>

definition first_avgScore :: "json list \<Rightarrow> json option prog" where
  "first_avgScore rs =
     (case rs of
        [] \<Rightarrow> throw (JsTypeError ''Cannot read properties of undefined'')
      | JNull # _ \<Rightarrow> throw (JsTypeError ''Cannot read properties of null'')
      | JObj ms # _ \<Rightarrow> ret (member ms ''avgScore'')
      | _ # _ \<Rightarrow> ret None)"

text \<open>\<^verbatim>\<open>getAverageScoreByActivity\<close> (cli.js 235-253).\<close>

definition getAverageScoreByActivity :: "env \<Rightarrow> string \<Rightarrow> json option prog" where
  "getAverageScoreByActivity e activityId =
     try_finally
       (try_catch
         (seq (connect e)
           (bind (aggregate e (collectionName e)
                    (JArr [JObj [(''$match'', JObj [(''object.id'', JStr activityId)])],
                           JObj [(''$group'',
                             JObj [(''_id'', JNull),
                                   (''avgScore'', JObj [(''$avg'', JStr ''$result.score.scaled'')])])]]))
              (\<lambda>averageScore.
            bind (first_avgScore averageScore) (\<lambda>avg.
            seq (console_log [PVal avg])
                (ret avg)))))
         (logged ''Error getting average score:''))
       client_close"

text \<open>
  \<^verbatim>\<open>checkDatabaseHealth\<close> is declared twice (cli.js 257-267 and 638-653); function
  declarations are hoisted and the later one is the one every call reaches.
\<close>

definition YOUR_MAX_SIZE :: nat where
  "YOUR_MAX_SIZE = 1000000000"

definition checkDatabaseHealth :: "env \<Rightarrow> json option prog" where
  "checkDatabaseHealth e =
     try_finally
       (try_catch
         (seq (connect e)
           (bind (stats e) (\<lambda>size.
            seq (if size > YOUR_MAX_SIZE
                 then logger_warn ''Database size exceeds recommended limit!''
                 else logger_info [PStr ''Database health is good.''])
                (ret None))))
         (logged ''Error during health check:''))
       client_close"

text \<open>
  \<^verbatim>\<open>backupDatabase\<close> (cli.js 269-279). The function returns as soon as the command
  is started; its value here is the callback it handed to \<^verbatim>\<open>exec\<close>, which the action
  runs after its own last line.
\<close>

definition backupDatabase :: "env \<Rightarrow> string \<Rightarrow> unit prog prog" where
  "backupDatabase e destinationPath =
     bind (exec e (''mongodump --uri='' @ uri e @ '' --db='' @ dbName e @ '' --out='' @ destinationPath))
       (\<lambda>ok.
        ret (if \<not> ok then logger_error ''Error during database backup:'' (Some ShellError)
             else console_log [PStr (''Database backed up successfully to '' @ destinationPath)]))"

text \<open>\<^verbatim>\<open>restoreDatabaseFromBackup\<close> (cli.js 281-291), in the same way.\<close>

definition restoreDatabaseFromBackup :: "env \<Rightarrow> string \<Rightarrow> unit prog prog" where
  "restoreDatabaseFromBackup e backupPath =
     bind (exec e (''mongorestore --uri='' @ uri e @ '' --db='' @ dbName e @ '' '' @ backupPath @ ''/'' @ dbName e))
       (\<lambda>ok.
        ret (if \<not> ok then logger_error ''Error during database restore:'' (Some ShellError)
             else console_log [PStr ''Database restored successfully from backup.'']))"

text \<open>\<^verbatim>\<open>resetDatabase\<close> (cli.js 293-316); its prompt sets no default.\<close>

definition resetDatabase :: "env \<Rightarrow> json option prog" where
  "resetDatabase e =
     try_finally
       (try_catch
         (bind (inquirer_confirm None) (\<lambda>reset.
            if reset then
              seq (connect e)
               (bind (deleteMany e (collectionName e)) (\<lambda>deletedCount.
                seq (console_log [PStr ''Deleted '', PNat deletedCount, PStr '' records.''])
                    (ret None)))
            else seq (console_log [PStr ''Database reset cancelled.'']) (ret None)))
         (logged ''Error during database reset:''))
       client_close"

text \<open>\<^verbatim>\<open>bulkStoreStatements\<close> (cli.js 318-335).\<close>

definition bulkStoreStatements :: "env \<Rightarrow> json \<Rightarrow> json option prog" where
  "bulkStoreStatements e data =
     try_finally
       (try_catch
         (seq (connect e)
           (bind (array_filter (validate (ajv_lib e)) data) (\<lambda>validData.
            if validData = [] then throw NoValidRecords
            else seq (insertMany e (collectionName e) validData)
                (seq (logger_info [PNat (length validData), PStr '' records inserted successfully''])
                     (ret None)))))
         (logged ''Error during bulk store:''))
       client_close"

text \<open>\<^verbatim>\<open>format.toLowerCase()\<close> on the letters A to Z.\<close>

definition toLowerCase :: "string \<Rightarrow> string" where
  "toLowerCase s =
     map (\<lambda>c. let n = (of_char c :: nat) in if 65 \<le> n \<and> n \<le> 90 then char_of (n + 32) else c) s"

text \<open>
  \<^verbatim>\<open>new Parser().parse(results)\<close> of json2csv: with no \<^verbatim>\<open>fields\<close> option the
  library throws on an empty list.
\<close>

definition json2csv_parse :: "json list \<Rightarrow> unit prog" where
  "json2csv_parse results = (if results = [] then throw Json2csvError else ret ())"

text \<open>\<^verbatim>\<open>exportStatements\<close> (cli.js 337-364).\<close>

definition exportStatements :: "env \<Rightarrow> string \<Rightarrow> string \<Rightarrow> json option prog" where
  "exportStatements e filter_text format =
     try_finally
       (try_catch
         (seq (connect e)
           (bind (parse e filter_text) (\<lambda>f.
            bind (find e (collectionName e) f) (\<lambda>results.
            seq (if toLowerCase format = ''csv''
                 then seq (json2csv_parse results)
                          (fs_writeFileSync ''exported_statements.csv'' results)
                 else fs_writeFileSync ''exported_statements.json'' results)
                (seq (logger_info [PStr (''Exported statements in '' @ format @ '' format.'')])
                     (ret None))))))
         (logged ''Error during export:''))
       client_close"

text \<open>\<^verbatim>\<open>importStatements\<close> (cli.js 366-374).\<close>

definition importStatements :: "env \<Rightarrow> string \<Rightarrow> json option prog" where
  "importStatements e filePath =
     try_catch
       (bind (fs_readFileSync filePath) (\<lambda>fileContent.
        bind (parse e fileContent) (\<lambda>jsonData.
        seq (bulkStoreStatements e jsonData)
            (ret None))))
       (logged ''Error during import:'')"

text \<open>\<^verbatim>\<open>registerNewVerb\<close> (cli.js 377-388).\<close>

definition registerNewVerb :: "env \<Rightarrow> string \<Rightarrow> string \<Rightarrow> json option prog" where
  "registerNewVerb e verb definition =
     try_finally
       (try_catch
         (seq (connect e)
           (seq (insertOne e ''verbs'' (JObj [(''verb'', JStr verb), (''definition'', JStr definition)]))
           (seq (logger_info [PStr (''Registered new verb: '' @ verb)])
                (ret None))))
         (logged ''Error during verb registration:''))
       client_close"

text \<open>\<^verbatim>\<open>registerNewActivityType\<close> (cli.js 390-401).\<close>

definition registerNewActivityType :: "env \<Rightarrow> string \<Rightarrow> string \<Rightarrow> json option prog" where
  "registerNewActivityType e type definition =
     try_finally
       (try_catch
         (seq (connect e)
           (seq (insertOne e ''activityTypes'' (JObj [(''type'', JStr type), (''definition'', JStr definition)]))
           (seq (logger_info [PStr (''Registered new activity type: '' @ type)])
                (ret None))))
         (logged ''Error during activity type registration:''))
       client_close"

text \<open>\<^verbatim>\<open>checkStatementAgainstProfile\<close> (cli.js 414-417).\<close>

definition checkStatementAgainstProfile :: "string \<Rightarrow> json \<Rightarrow> bool" where
  "checkStatementAgainstProfile profileId statement = True"

text \<open>\<^verbatim>\<open>interactiveMode\<close> (cli.js 421-469): four questions, one statement.\<close>

definition interactiveMode :: "json prog" where
  "interactiveMode =
     bind inquirer_input (\<lambda>actorName.
     bind inquirer_input (\<lambda>actorMbox.
     bind inquirer_input (\<lambda>verbId.
     bind inquirer_input (\<lambda>objectName.
     ret (JObj
       [(''actor'', JObj [(''name'', JStr actorName), (''mbox'', JStr actorMbox)]),
        (''verb'', JObj [(''id'', JStr verbId),
                         (''display'', JObj [(''en-US'', JStr ''Assuming English here; adjust as needed'')])]),
        (''object'', JObj [(''objectType'', JStr ''Activity''), (''name'', JStr objectName)])])))))"

text \<open>\<^verbatim>\<open>generateStatementTemplate\<close> (cli.js 471-491).\<close>

definition generateStatementTemplate :: json where
  "generateStatementTemplate =
     JObj
       [(''actor'', JObj [(''name'', JStr ''INSERT_ACTOR_NAME''), (''mbox'', JStr ''INSERT_ACTOR_MBOX'')]),
        (''verb'', JObj [(''id'', JStr ''INSERT_VERB_ID''),
                         (''display'', JObj [(''en-US'', JStr ''INSERT_DISPLAY_TEXT'')])]),
        (''object'', JObj [(''objectType'', JStr ''Activity'')])]"

text \<open>\<^verbatim>\<open>searchStatementsByContent\<close> (cli.js 493-508).\<close>

definition searchStatementsByContent :: "env \<Rightarrow> string \<Rightarrow> json option prog" where
  "searchStatementsByContent e query =
     try_finally
       (try_catch
         (seq (connect e)
           (bind (find e (collectionName e) (JObj [(''$text'', JObj [(''$search'', JStr query)])])) (\<lambda>results.
            ret (Some (JArr results)))))
         (logged ''Error during full-text search:''))
       client_close"

text \<open>\<^verbatim>\<open>listAllObjectTypes\<close> (cli.js 514-525).\<close>

definition listAllObjectTypes :: "env \<Rightarrow> json option prog" where
  "listAllObjectTypes e =
     try_finally
       (try_catch
         (seq (connect e)
           (bind (distinct_values e (collectionName e) ''object.objectType'') (\<lambda>objectTypes.
            ret (Some (JArr objectTypes)))))
         (logged ''Error fetching object types:''))
       client_close"

text \<open>\<^verbatim>\<open>visualizeActorProgress\<close> (cli.js 527-545).\<close>

definition visualizeActorProgress :: "env \<Rightarrow> string \<Rightarrow> json option prog" where
  "visualizeActorProgress e actorId =
     try_finally
       (try_catch
         (seq (connect e)
           (bind (ObjectId actorId) (\<lambda>oid.
            bind (find_sorted e (collectionName e) (JObj [(''actor.id'', oid)])
                    (JObj [(''timestamp'', JNum 1)])) (\<lambda>progressData.
            ret (Some (JArr progressData))))))
         (logged ''Error visualizing actor progress:''))
       client_close"

text \<open>\<^verbatim>\<open>setStatementAuthority\<close> (cli.js 547-560).\<close>

definition setStatementAuthority :: "env \<Rightarrow> string \<Rightarrow> string \<Rightarrow> json option prog" where
  "setStatementAuthority e statementId authority =
     try_finally
       (try_catch
         (seq (connect e)
           (bind (ObjectId statementId) (\<lambda>oid.
            seq (updateOne e (collectionName e) (JObj [(''_id'', oid)])
                   (JObj [(''$set'', JObj [(''authority'', JStr authority)])]))
                (ret None))))
         (logged ''Error setting statement authority:''))
       client_close"

text \<open>\<^verbatim>\<open>getMostActiveActors\<close> (cli.js 562-578).\<close>

definition getMostActiveActors :: "env \<Rightarrow> json option prog" where
  "getMostActiveActors e =
     try_finally
       (try_catch
         (seq (connect e)
           (bind (aggregate e (collectionName e)
                    (JArr [JObj [(''$group'', JObj [(''_id'', JStr ''$actor.mbox''),
                                                    (''count'', JObj [(''$sum'', JNum 1)])])],
                           JObj [(''$sort'', JObj [(''count'', JNum (- 1))])]])) (\<lambda>actors.
            ret (Some (JArr actors)))))
         (logged ''Error fetching most active actors:''))
       client_close"

text \<open>\<^verbatim>\<open>visualizeVerbUsage\<close> (cli.js 580-601).\<close>

definition visualizeVerbUsage :: "env \<Rightarrow> json \<Rightarrow> json option prog" where
  "visualizeVerbUsage e filter_value =
     try_finally
       (try_catch
         (seq (connect e)
           (bind (aggregate e (collectionName e)
                    (JArr [JObj [(''$match'', filter_value)],
                           JObj [(''$group'', JObj [(''_id'', JStr ''$verb.id''),
                                                    (''count'', JObj [(''$sum'', JNum 1)])])],
                           JObj [(''$sort'', JObj [(''count'', JNum (- 1))])]])) (\<lambda>verbUsage.
            ret (Some (JArr verbUsage)))))
         (logged ''Error visualizing verb usage:''))
       client_close"

text \<open>\<^verbatim>\<open>listAllExtensions\<close> (cli.js 603-614).\<close>

definition listAllExtensions :: "env \<Rightarrow> json option prog" where
  "listAllExtensions e =
     try_finally
       (try_catch
         (seq (connect e)
           (bind (distinct_values e (collectionName e) ''object.extensions'') (\<lambda>extensions.
            ret (Some (JArr extensions)))))
         (logged ''Error listing all extensions:''))
       client_close"

text \<open>\<^verbatim>\<open>getStatementsByDuration\<close> (cli.js 616-630); both bounds are the argument texts.\<close>

definition getStatementsByDuration :: "env \<Rightarrow> string \<Rightarrow> string \<Rightarrow> json option prog" where
  "getStatementsByDuration e minDuration maxDuration =
     try_finally
       (try_catch
         (seq (connect e)
           (bind (find e (collectionName e)
                    (JObj [(''duration'', JObj [(''$gte'', JStr minDuration),
                                                (''$lte'', JStr maxDuration)])])) (\<lambda>statements.
            ret (Some (JArr statements)))))
         (logged ''Error retrieving statements by duration:''))
       client_close"

section \<open>The menu\<close>






section \<open>The commands\<close>

text \<open>
  One constructor for each command name registered on \<^verbatim>\<open>program\<close> (cli.js 707-1061),
  with the command's arguments. The eight commands from \<^verbatim>\<open>listVerbs\<close> to
  \<^verbatim>\<open>avgScoreByActivity\<close> are registered twice with the same action.
\<close>

datatype command =
    Create string
  | Query string
  | BulkImport string
  | ListVerbs
  | ListActors
  | VisualizeData string
  | AggregateCmd string
  | LrsStats
  | GroupByDate string string
  | AnalyzeActivity string
  | AvgScoreByActivity string
  | CheckHealth
  | Backup string
  | Restore string
  | ResetDb
  | BulkStore string
  | ExportStatements string string
  | ImportStatements string
  | Validate string
  | RegisterVerb string string
  | RegisterActivityType string string
  | CheckProfile string string
  | InteractiveMode
  | GenerateTemplate
  | SearchStatements string
  | ListObjectTypes
  | VisualizeActorProgress string
  | SetStatementAuthority string string
  | MostActiveActors
  | VisualizeVerbUsage
  | ListAllExtensions
  | GetStatementsByDuration string string

text \<open>The action of \<^verbatim>\<open>reset-db\<close> (cli.js 893-913); its prompt sets the default to false.\<close>

definition reset_db :: "env \<Rightarrow> unit prog" where
  "reset_db e =
     bind (inquirer_confirm (Some False)) (\<lambda>confirmReset.
       if confirmReset then
         seq (resetDatabase e) (console_log [PStr ''Database records purged.''])
       else console_log [PStr ''Operation cancelled.''])"

text \<open>The action of \<^verbatim>\<open>create\<close> (cli.js 707-717).\<close>

definition create :: "env \<Rightarrow> string \<Rightarrow> unit prog" where
  "create e data =
     try_catch
       (bind (parse e data) (\<lambda>jsonData.
        seq (createRecord e jsonData) (ret ())))
       (\<lambda>x. logger_error ''Error during record creation:'' (Some x))"

text \<open>The action of \<^verbatim>\<open>bulkImport\<close> (cli.js 726-736).\<close>

definition bulkImport :: "env \<Rightarrow> string \<Rightarrow> unit prog" where
  "bulkImport e filepath =
     try_catch
       (bind (fs_readFileSync filepath) (\<lambda>content.
        bind (parse e content) (\<lambda>jsonData.
        seq (bulkInsert e jsonData) (ret ()))))
       (\<lambda>x. logger_error ''Error during bulk import:'' (Some x))"

text \<open>The action of \<^verbatim>\<open>bulk-store\<close> (cli.js 919-926).\<close>

definition bulk_store :: "env \<Rightarrow> string \<Rightarrow> unit prog" where
  "bulk_store e data =
     bind (parse e data) (\<lambda>jsonData.
     seq (bulkStoreStatements e jsonData)
         (console_log [PStr ''Statements stored successfully.'']))"

text \<open>The action of \<^verbatim>\<open>validate\<close> (cli.js 946-953); the verdict is dropped.\<close>

definition validate_cmd :: "env \<Rightarrow> string \<Rightarrow> unit prog" where
  "validate_cmd e data =
     bind (parse e data) (\<lambda>jsonData.
     bind (ret (validateStatement (ajv_lib e) jsonData)) (\<lambda>verdict.
     console_log [PStr ''Statement validation complete.'']))"

text \<open>The action of \<^verbatim>\<open>check-profile\<close> (cli.js 971-978).\<close>

definition check_profile :: "env \<Rightarrow> string \<Rightarrow> string \<Rightarrow> unit prog" where
  "check_profile e profileId statement =
     bind (parse e statement) (\<lambda>jsonData.
     bind (ret (checkStatementAgainstProfile profileId jsonData)) (\<lambda>verdict.
     console_log [PStr ''Statement checked against the profile.'']))"

text \<open>
  The remaining actions call one function and print; \<open>printing label m\<close> is
  \<^verbatim>\<open>const x = await m; console.log(label, x)\<close>.
\<close>

definition printing :: "pval list \<Rightarrow> json option prog \<Rightarrow> unit prog" where
  "printing label m = bind m (\<lambda>x. console_log (label @ [PVal x]))"

fun action :: "env \<Rightarrow> command \<Rightarrow> unit prog" where
  "action e (Create data) = create e data"
| "action e (Query parameters) = seq (queryRecords e parameters) (ret ())"
| "action e (BulkImport filepath) = bulkImport e filepath"
| "action e ListVerbs = printing [] (listAllVerbs e)"
| "action e ListActors = printing [] (listAllActors e)"
| "action e (VisualizeData f) = seq (visualizeData f) (ret ())"
| "action e (AggregateCmd pipeline) = printing [] (aggregateStatements e pipeline)"
| "action e LrsStats = printing [] (getLRSStats e)"
| "action e (GroupByDate f granularity) = printing [] (groupStatementsByDate e f granularity)"
| "action e (AnalyzeActivity activityId) = printing [] (analyzeActivityInteractions e activityId)"
| "action e (AvgScoreByActivity activityId) = printing [] (getAverageScoreByActivity e activityId)"
| "action e CheckHealth = seq (checkDatabaseHealth e) (ret ())"
| "action e (Backup destinationPath) =
     bind (backupDatabase e destinationPath) (\<lambda>callback.
       seq (console_log [PStr (''Database backed up to '' @ destinationPath)]) callback)"
| "action e (Restore backupPath) =
     bind (restoreDatabaseFromBackup e backupPath) (\<lambda>callback.
       seq (console_log [PStr (''Database restored from '' @ backupPath)]) callback)"
| "action e ResetDb = reset_db e"
| "action e (BulkStore data) = bulk_store e data"
| "action e (ExportStatements f format) =
     seq (exportStatements e f format)
         (console_log [PStr (''Statements exported in '' @ format @ '' format.'')])"
| "action e (ImportStatements filePath) =
     seq (importStatements e filePath)
         (console_log [PStr (''Statements imported from '' @ filePath @ ''.'')])"
| "action e (Validate data) = validate_cmd e data"
| "action e (RegisterVerb verb definition) =
     seq (registerNewVerb e verb definition)
         (console_log [PStr (''Verb '' @ [CHR 0x27] @ verb @ [CHR 0x27] @ '' registered successfully.'')])"
| "action e (RegisterActivityType type definition) =
     seq (registerNewActivityType e type definition)
         (console_log [PStr (''Activity type '' @ [CHR 0x27] @ type @ [CHR 0x27] @ '' registered successfully.'')])"
| "action e (CheckProfile profileId statement) = check_profile e profileId statement"
| "action e InteractiveMode =
     bind interactiveMode (\<lambda>statement.
       console_log [PStr ''Generated statement:'', PVal (Some statement)])"
| "action e GenerateTemplate =
     console_log [PStr ''Generated template:'', PVal (Some generateStatementTemplate)]"
| "action e (SearchStatements query) =
     printing [PStr ''Search Results:''] (searchStatementsByContent e query)"
| "action e ListObjectTypes = printing [PStr ''Object Types:''] (listAllObjectTypes e)"
| "action e (VisualizeActorProgress actorId) =
     printing [PStr ''Progress Data:''] (visualizeActorProgress e actorId)"
| "action e (SetStatementAuthority statementId authority) =
     seq (setStatementAuthority e statementId authority)
         (console_log [PStr (''Authority set for statement '' @ statementId @ ''.'')])"
| "action e MostActiveActors = printing [PStr ''Most Active Actors:''] (getMostActiveActors e)"
| "action e VisualizeVerbUsage = printing [PStr ''Verb Usage:''] (visualizeVerbUsage e (JObj []))"
| "action e ListAllExtensions = printing [PStr ''Extensions:''] (listAllExtensions e)"
| "action e (GetStatementsByDuration minDuration maxDuration) =
     printing [PStr ''Statements:''] (getStatementsByDuration e minDuration maxDuration)"

section \<open>Startup\<close>




section \<open>The specification's notions\<close>

text \<open>
  The violations of a record, as the specification lists them: \<^verbatim>\<open>actor\<close> present and
  an object, then \<^verbatim>\<open>actor.name\<close> and \<^verbatim>\<open>actor.mbox\<close> present and text; \<^verbatim>\<open>verb\<close>
  present and an object, then \<^verbatim>\<open>verb.id\<close> present and text and \<^verbatim>\<open>verb.display\<close>
  present and an object; \<^verbatim>\<open>object\<close> present and an object. A missing or ill-typed
  parent is reported without its children.
\<close>

definition field_violations ::
  "string list \<Rightarrow> (string \<times> json) list \<Rightarrow> string \<Rightarrow> jtype \<Rightarrow> ajv_error list" where
  "field_violations path ms k t =
     (case member ms k of
        None \<Rightarrow> [MissingProperty path k]
      | Some v \<Rightarrow> if checkDataType t v then [] else [WrongType (path @ [k]) t])"

definition all_violations :: "json \<Rightarrow> ajv_error list" where
  "all_violations data =
     (case data of
        JObj ms \<Rightarrow>
          (case member ms ''actor'' of
             None \<Rightarrow> [MissingProperty [] ''actor'']
           | Some (JObj a) \<Rightarrow>
               field_violations [''actor''] a ''name'' T_string @
               field_violations [''actor''] a ''mbox'' T_string
           | Some _ \<Rightarrow> [WrongType [''actor''] T_object]) @
          (case member ms ''verb'' of
             None \<Rightarrow> [MissingProperty [] ''verb'']
           | Some (JObj b) \<Rightarrow>
               field_violations [''verb''] b ''id'' T_string @
               field_violations [''verb''] b ''display'' T_object
           | Some _ \<Rightarrow> [WrongType [''verb''] T_object]) @
          field_violations [] ms ''object'' T_object
      | _ \<Rightarrow> [WrongType [] T_object])"

text \<open>What the compiled validator would collect had \<^verbatim>\<open>allErrors\<close> been switched on.\<close>

definition all_errors :: "ajv_version \<Rightarrow> json \<Rightarrow> ajv_error list" where
  "all_errors lib data = validate_schema lib (ajv\<lparr>allErrors := True\<rparr>) xAPISchema [] data"

text \<open>A field of a record, read along a path of property names.\<close>

fun get_path :: "json \<Rightarrow> string list \<Rightarrow> json option" where
  "get_path v [] = Some v"
| "get_path (JObj ms) (k # ks) =
     (case member ms k of None \<Rightarrow> None | Some v \<Rightarrow> get_path v ks)"
| "get_path v (k # ks) = None"

definition present :: "json \<Rightarrow> string list \<Rightarrow> bool" where
  "present data path = (get_path data path \<noteq> None)"

definition has_type :: "json \<Rightarrow> string list \<Rightarrow> jtype \<Rightarrow> bool" where
  "has_type data path t =
     (case get_path data path of None \<Rightarrow> False | Some v \<Rightarrow> checkDataType t v)"

text \<open>A storable record: the five fields present, each of the type the data model gives it.\<close>

definition storable :: "json \<Rightarrow> bool" where
  "storable data =
     (has_type data [''actor'', ''name''] T_string \<and>
      has_type data [''actor'', ''mbox''] T_string \<and>
      has_type data [''verb'', ''id''] T_string \<and>
      has_type data [''verb'', ''display''] T_object \<and>
      has_type data [''object''] T_object)"

text \<open>
  The actions that parse their argument or prompt outside every \<^verbatim>\<open>try\<close> block, and
  the two that run a shell command.
\<close>

fun unguarded :: "command \<Rightarrow> bool" where
  "unguarded (BulkStore data) = True"
| "unguarded (Validate data) = True"
| "unguarded (CheckProfile profileId statement) = True"
| "unguarded InteractiveMode = True"
| "unguarded ResetDb = True"
| "unguarded c = False"

fun runs_shell :: "command \<Rightarrow> bool" where
  "runs_shell (Backup destinationPath) = True"
| "runs_shell (Restore backupPath) = True"
| "runs_shell c = False"

text \<open>
  The collection a command's calls are made on; \<open>None\<close> stands for the call on the
  database itself.
\<close>

fun scope :: "env \<Rightarrow> command \<Rightarrow> string option set" where
  "scope e (RegisterVerb verb definition) = {Some ''verbs''}"
| "scope e (RegisterActivityType type definition) = {Some ''activityTypes''}"
| "scope e CheckHealth = {None}"
| "scope e c = {Some (collectionName e)}"

text \<open>
  Five properties of a program that pass through sequencing and \<^verbatim>\<open>try\<close>: it ends
  the process only with code 1, only when the server cannot be connected to, and with
  the connection error logged last; it never waits for input; no error leaves it; a
  call that the server fails is logged, unless the error is still on its way out; its
  calls on the server are made on the collections of \<open>S\<close> only and it leaves every
  other collection as it was.
\<close>

definition exits_only_unconnected :: "env \<Rightarrow> 'a prog \<Rightarrow> bool" where
  "exits_only_unconnected e m =
     (\<forall>w n. fst (m w) = Exit n \<longrightarrow>
        n = 1 \<and> \<not> conn_ok e \<and>
        (\<exists>xs. out (snd (m w)) = xs @ [LogError ''Could not connect to MongoDB:'' (Some MongoError)]))"

definition never_blocks :: "'a prog \<Rightarrow> bool" where
  "never_blocks m = (\<forall>w. fst (m w) \<noteq> Blocked)"

definition never_throws :: "'a prog \<Rightarrow> bool" where
  "never_throws m = (\<forall>w x. fst (m w) \<noteq> Throw x)"


definition stays_within :: "string option set \<Rightarrow> world \<Rightarrow> world \<Rightarrow> bool" where
  "stays_within S w w' =
     ((\<exists>new. ops w' = ops w @ new \<and> (\<forall>op \<in> set new. op_collection op \<in> S)) \<and>
      (\<forall>k. Some k \<notin> S \<longrightarrow> db w' k = db w k))"

definition scoped :: "string option set \<Rightarrow> 'a prog \<Rightarrow> bool" where
  "scoped S m = (\<forall>w. stays_within S w (snd (m w)))"

section \<open>Sample data\<close>

definition john_only_name :: json where
  "john_only_name = JObj [(''actor'', JObj [(''name'', JStr ''John'')])]"

definition example_statement :: json where
  "example_statement =
     JObj
       [(''actor'', JObj [(''name'', JStr ''John''), (''mbox'', JStr ''mailto:john@x.com'')]),
        (''verb'', JObj [(''id'', JStr ''http://adlnet.gov/expapi/verbs/completed''),
                         (''display'', JObj [(''en-US'', JStr ''completed'')])]),
        (''object'', JObj [(''objectType'', JStr ''Activity''), (''name'', JStr ''Course'')])]"

definition object_as_text :: json where
  "object_as_text =
     JObj
       [(''actor'', JObj [(''name'', JStr ''John''), (''mbox'', JStr ''mailto:john@x.com'')]),
        (''verb'', JObj [(''id'', JStr ''http://adlnet.gov/expapi/verbs/completed''),
                         (''display'', JObj [(''en-US'', JStr ''completed'')])]),
        (''object'', JStr ''Course'')]"

text \<open>A stand-in for \<^verbatim>\<open>JSON.parse\<close> on four texts; the second is cut short.\<close>

definition sample_parse :: "string \<Rightarrow> json option" where
  "sample_parse s =
     (if s = ''{}'' then Some (JObj [])
      else if s = ''{'' then None
      else if s = ''[]'' then Some (JArr [])
      else if s = ''[{}]'' then Some (JArr [JObj []])
      else None)"

definition sample_env :: env where
  "sample_env =
     \<lparr>uri = ''mongodb://localhost:27017'', dbName = ''lrs'', collectionName = ''statements'',
      ajv_lib = Ajv8, JSON_parse = sample_parse, conn_ok = True, op_ok = (\<lambda>op. True),
      reply = (\<lambda>op docs. docs), updated = (\<lambda>op docs. docs), storageSize = (\<lambda>d. 0),
      exec_ok = (\<lambda>cmd. True), exec_effect = (\<lambda>cmd d. d)\<rparr>"

definition legacy_env :: env where
  "legacy_env = sample_env\<lparr>ajv_lib := Ajv6\<rparr>"

definition unreachable_env :: env where
  "unreachable_env = sample_env\<lparr>conn_ok := False\<rparr>"



definition fresh_world :: world where
  "fresh_world =
     \<lparr>db = (\<lambda>c. []), connected = False, ops = [], shell = [], out = [], stdin = []\<rparr>"

definition stocked_world :: world where
  "stocked_world = fresh_world\<lparr>db := (\<lambda>c. if c = ''statements'' then [example_statement] else [])\<rparr>"

section \<open>Properties of the validator\<close>

lemma check_required_first:
  "check_required \<lparr>allErrors = False\<rparr> path req ms =
   take 1 (check_required \<lparr>allErrors = True\<rparr> path req ms)"
  by (simp add: check_required_def split: list.splits)

lemma check_required_all:
  "check_required \<lparr>allErrors = True\<rparr> path req ms =
   map (MissingProperty path) (missing_props req ms)"
  by (simp add: check_required_def split: list.splits)

lemma take1_append:
  "take (Suc 0) (xs @ ys) = (if xs = [] then take (Suc 0) ys else take (Suc 0) xs)"
  by (cases xs) simp_all

lemma first_error_only:
  "validate_schema lib \<lparr>allErrors = False\<rparr> s path v =
     take 1 (validate_schema lib \<lparr>allErrors = True\<rparr> s path v)"
  "validate_properties lib \<lparr>allErrors = False\<rparr> req props path ms =
     take 1 (validate_properties lib \<lparr>allErrors = True\<rparr> req props path ms)"
proof (induction lib "\<lparr>allErrors = False\<rparr>" s path v and lib "\<lparr>allErrors = False\<rparr>" req props path ms
       rule: validate_schema_validate_properties.induct)
  case (1 lib ty props req path v)
  then show ?case
    by (cases v) (auto simp: check_required_first take1_append Let_def Suc_le_eq split: option.splits)
next
  case (2 lib req path ms)
  then show ?case by simp
next
  case (3 lib req k s props path ms)
  show ?case
  proof (cases "has_rules s")
    case False
    with 3 show ?thesis by simp
  next
    case True
    with 3 show ?thesis
      by (cases "member ms k") (auto simp: take1_append Let_def Suc_le_eq)
  qed
qed

lemma validate_errors_first: "validate_errors lib data = take 1 (all_errors lib data)"
  by (simp add: validate_errors_def all_errors_def ajv_def first_error_only(1))

lemma leaf_schema:
  "validate_schema lib opts (Schema (Some t) [] []) path v =
     (if checkDataType t v then [] else [WrongType path t])"
  by (cases v; cases lib)
     (simp_all add: wrong_type_def check_required_def missing_props_def required_by_keyword_def)

lemma leaf_has_rules: "has_rules (Schema (Some t) props req)"
  by (simp add: has_rules_def)

text \<open>The older generation: the errors come in the order of the specification's list.\<close>

lemma pair_schema_6:
  assumes "has_rules s1" and "has_rules s2"
  shows "validate_schema Ajv6 \<lparr>allErrors = True\<rparr>
     (Schema (Some T_object) [(f1, s1), (f2, s2)] [f1, f2]) path (JObj a) =
   (case member a f1 of
      None \<Rightarrow> [MissingProperty path f1]
    | Some v \<Rightarrow> validate_schema Ajv6 \<lparr>allErrors = True\<rparr> s1 (path @ [f1]) v) @
   (case member a f2 of
      None \<Rightarrow> [MissingProperty path f2]
    | Some v \<Rightarrow> validate_schema Ajv6 \<lparr>allErrors = True\<rparr> s2 (path @ [f2]) v)"
proof -
  from assms have r: "required_by_keyword Ajv6 [(f1, s1), (f2, s2)] [f1, f2] = []"
    by (simp add: required_by_keyword_def has_subschema_def)
  from assms show ?thesis
    by (simp add: wrong_type_def r check_required_def missing_props_def split: option.splits)
qed

lemma parent_schema_6:
  "validate_schema Ajv6 \<lparr>allErrors = True\<rparr>
     (Schema (Some T_object) [(f1, Schema (Some t1) [] []), (f2, Schema (Some t2) [] [])] [f1, f2])
     [k] v =
   (case v of
      JObj a \<Rightarrow> field_violations [k] a f1 t1 @ field_violations [k] a f2 t2
    | _ \<Rightarrow> [WrongType [k] T_object])"
proof (cases v)
  case (JObj a)
  show ?thesis
    unfolding JObj pair_schema_6 [OF leaf_has_rules leaf_has_rules]
    by (cases "member a f1"; cases "member a f2")
       (simp_all add: leaf_schema field_violations_def del: validate_schema.simps)
qed (simp_all add: wrong_type_def)

lemma top_schema_6:
  assumes "has_rules s1" and "has_rules s2" and "has_rules s3"
  shows "validate_schema Ajv6 \<lparr>allErrors = True\<rparr>
     (Schema (Some T_object) [(k1, s1), (k2, s2), (k3, s3)] [k1, k2, k3]) [] (JObj ms) =
   (case member ms k1 of
      None \<Rightarrow> [MissingProperty [] k1]
    | Some v \<Rightarrow> validate_schema Ajv6 \<lparr>allErrors = True\<rparr> s1 [k1] v) @
   (case member ms k2 of
      None \<Rightarrow> [MissingProperty [] k2]
    | Some v \<Rightarrow> validate_schema Ajv6 \<lparr>allErrors = True\<rparr> s2 [k2] v) @
   (case member ms k3 of
      None \<Rightarrow> [MissingProperty [] k3]
    | Some v \<Rightarrow> validate_schema Ajv6 \<lparr>allErrors = True\<rparr> s3 [k3] v)"
proof -
  from assms have r: "required_by_keyword Ajv6 [(k1, s1), (k2, s2), (k3, s3)] [k1, k2, k3] = []"
    by (simp add: required_by_keyword_def has_subschema_def)
  from assms show ?thesis
    by (simp add: wrong_type_def r check_required_def missing_props_def split: option.splits)
qed

lemma ajv_all: "ajv\<lparr>allErrors := True\<rparr> = \<lparr>allErrors = True\<rparr>"
  by (simp add: ajv_def)

lemma all_errors_6: "all_errors Ajv6 data = all_violations data"
proof (cases data)
  case (JObj ms)
  have "all_errors Ajv6 (JObj ms) =
     (case member ms ''actor'' of
        None \<Rightarrow> [MissingProperty [] ''actor'']
      | Some v \<Rightarrow>
          validate_schema Ajv6 \<lparr>allErrors = True\<rparr>
            (Schema (Some T_object)
               [(''name'', Schema (Some T_string) [] []), (''mbox'', Schema (Some T_string) [] [])]
               [''name'', ''mbox'']) [''actor''] v) @
     (case member ms ''verb'' of
        None \<Rightarrow> [MissingProperty [] ''verb'']
      | Some v \<Rightarrow>
          validate_schema Ajv6 \<lparr>allErrors = True\<rparr>
            (Schema (Some T_object)
               [(''id'', Schema (Some T_string) [] []), (''display'', Schema (Some T_object) [] [])]
               [''id'', ''display'']) [''verb''] v) @
     (case member ms ''object'' of
        None \<Rightarrow> [MissingProperty [] ''object'']
      | Some v \<Rightarrow> validate_schema Ajv6 \<lparr>allErrors = True\<rparr> (Schema (Some T_object) [] []) [''object''] v)"
    unfolding all_errors_def ajv_all xAPISchema_def
    by (rule top_schema_6) (rule leaf_has_rules)+
  then show ?thesis
    unfolding JObj
    by (cases "member ms ''actor''"; cases "member ms ''verb''"; cases "member ms ''object''")
       (simp_all add: all_violations_def parent_schema_6 leaf_schema field_violations_def
          del: validate_schema.simps split: json.splits)
qed (simp_all add: all_errors_def all_violations_def xAPISchema_def ajv_def wrong_type_def)

text \<open>The newer generation: the same errors, the missing names of a level first.\<close>

lemma pair_schema_8:
  assumes "has_rules s1" and "has_rules s2"
  shows "validate_schema Ajv8 \<lparr>allErrors = True\<rparr>
     (Schema (Some T_object) [(f1, s1), (f2, s2)] [f1, f2]) path (JObj a) =
   map (MissingProperty path) (missing_props [f1, f2] a) @
   (case member a f1 of
      None \<Rightarrow> []
    | Some v \<Rightarrow> validate_schema Ajv8 \<lparr>allErrors = True\<rparr> s1 (path @ [f1]) v) @
   (case member a f2 of
      None \<Rightarrow> []
    | Some v \<Rightarrow> validate_schema Ajv8 \<lparr>allErrors = True\<rparr> s2 (path @ [f2]) v)"
  using assms
  by (simp add: wrong_type_def required_by_keyword_def check_required_all split: option.splits)

lemma parent_schema_8:
  "set (validate_schema Ajv8 \<lparr>allErrors = True\<rparr>
          (Schema (Some T_object) [(f1, Schema (Some t1) [] []), (f2, Schema (Some t2) [] [])] [f1, f2])
          [k] v) =
   set (case v of
          JObj a \<Rightarrow> field_violations [k] a f1 t1 @ field_violations [k] a f2 t2
        | _ \<Rightarrow> [WrongType [k] T_object])"
proof (cases v)
  case (JObj a)
  show ?thesis
    unfolding JObj pair_schema_8 [OF leaf_has_rules leaf_has_rules]
    by (cases "member a f1"; cases "member a f2")
       (auto simp: leaf_schema field_violations_def missing_props_def simp del: validate_schema.simps)
qed (simp_all add: wrong_type_def)

lemma top_schema_8:
  assumes "has_rules s1" and "has_rules s2" and "has_rules s3"
  shows "validate_schema Ajv8 \<lparr>allErrors = True\<rparr>
     (Schema (Some T_object) [(k1, s1), (k2, s2), (k3, s3)] [k1, k2, k3]) [] (JObj ms) =
   map (MissingProperty []) (missing_props [k1, k2, k3] ms) @
   (case member ms k1 of None \<Rightarrow> [] | Some v \<Rightarrow> validate_schema Ajv8 \<lparr>allErrors = True\<rparr> s1 [k1] v) @
   (case member ms k2 of None \<Rightarrow> [] | Some v \<Rightarrow> validate_schema Ajv8 \<lparr>allErrors = True\<rparr> s2 [k2] v) @
   (case member ms k3 of None \<Rightarrow> [] | Some v \<Rightarrow> validate_schema Ajv8 \<lparr>allErrors = True\<rparr> s3 [k3] v)"
  using assms
  by (simp add: wrong_type_def required_by_keyword_def check_required_all split: option.splits)

lemma all_errors_8: "set (all_errors Ajv8 data) = set (all_violations data)"
proof (cases data)
  case (JObj ms)
  have "all_errors Ajv8 (JObj ms) =
     map (MissingProperty []) (missing_props [''actor'', ''verb'', ''object''] ms) @
     (case member ms ''actor'' of
        None \<Rightarrow> []
      | Some v \<Rightarrow>
          validate_schema Ajv8 \<lparr>allErrors = True\<rparr>
            (Schema (Some T_object)
               [(''name'', Schema (Some T_string) [] []), (''mbox'', Schema (Some T_string) [] [])]
               [''name'', ''mbox'']) [''actor''] v) @
     (case member ms ''verb'' of
        None \<Rightarrow> []
      | Some v \<Rightarrow>
          validate_schema Ajv8 \<lparr>allErrors = True\<rparr>
            (Schema (Some T_object)
               [(''id'', Schema (Some T_string) [] []), (''display'', Schema (Some T_object) [] [])]
               [''id'', ''display'']) [''verb''] v) @
     (case member ms ''object'' of
        None \<Rightarrow> []
      | Some v \<Rightarrow> validate_schema Ajv8 \<lparr>allErrors = True\<rparr> (Schema (Some T_object) [] []) [''object''] v)"
    unfolding all_errors_def ajv_all xAPISchema_def
    by (rule top_schema_8) (rule leaf_has_rules)+
  then show ?thesis
    unfolding JObj
    by (cases "member ms ''actor''"; cases "member ms ''verb''"; cases "member ms ''object''")
       (auto simp: all_violations_def parent_schema_8 leaf_schema missing_props_def field_violations_def
             simp del: validate_schema.simps split: json.splits)
qed (simp_all add: all_errors_def all_violations_def xAPISchema_def ajv_def wrong_type_def)

lemma all_errors_set: "set (all_errors lib data) = set (all_violations data)"
  by (cases lib) (simp_all add: all_errors_6 all_errors_8)

lemma all_errors_empty: "all_errors lib data = [] \<longleftrightarrow> all_violations data = []"
  using all_errors_set [of lib data] by (metis set_empty)

lemma field_violations_empty:
  "field_violations path a k t = [] \<longleftrightarrow> has_type (JObj a) [k] t"
  by (simp add: field_violations_def has_type_def split: option.splits)

lemma parent_has_type:
  "has_type (JObj ms) [k, f] t \<longleftrightarrow> (\<exists>a. member ms k = Some (JObj a) \<and> has_type (JObj a) [f] t)"
proof (cases "member ms k")
  case None
  then show ?thesis by (simp add: has_type_def)
next
  case (Some v)
  then show ?thesis by (cases v) (simp_all add: has_type_def)
qed

lemma parent_violations_empty:
  "(case member ms k of
      None \<Rightarrow> [MissingProperty [] k]
    | Some (JObj a) \<Rightarrow> field_violations [k] a f1 t1 @ field_violations [k] a f2 t2
    | Some _ \<Rightarrow> [WrongType [k] T_object]) = [] \<longleftrightarrow>
   has_type (JObj ms) [k, f1] t1 \<and> has_type (JObj ms) [k, f2] t2"
proof (cases "member ms k")
  case None
  then show ?thesis by (simp add: parent_has_type)
next
  case (Some v)
  then show ?thesis by (cases v) (simp_all add: parent_has_type field_violations_empty)
qed

lemma no_violations_iff_storable: "all_violations data = [] \<longleftrightarrow> storable data"
proof (cases data)
  case (JObj ms)
  show ?thesis
    unfolding JObj all_violations_def storable_def
    by (simp only: json.case append_is_Nil_conv parent_violations_empty field_violations_empty conj_assoc)
qed (simp_all add: all_violations_def storable_def has_type_def)

lemma validate_iff_no_violations: "validate lib data \<longleftrightarrow> all_violations data = []"
  by (simp add: validate_def validate_errors_first all_errors_empty)

lemma validate_iff_storable: "validate lib data \<longleftrightarrow> storable data"
  by (simp add: validate_iff_no_violations no_violations_iff_storable)

lemma john_violations:
  "all_violations john_only_name =
     [MissingProperty [''actor''] ''mbox'', MissingProperty [] ''verb'', MissingProperty [] ''object'']"
  by (simp add: all_violations_def john_only_name_def field_violations_def member_def)

lemma john_errors_8: "validate_errors Ajv8 john_only_name = [MissingProperty [] ''verb'']"
  by (simp add: validate_errors_def john_only_name_def xAPISchema_def ajv_def
      required_by_keyword_def check_required_def missing_props_def member_def wrong_type_def)

lemma john_errors_6: "validate_errors Ajv6 john_only_name = [MissingProperty [''actor''] ''mbox'']"
  by (simp add: validate_errors_first all_errors_6 john_violations)

lemma validate_errors_single:
  "validate_errors lib data = [] \<and> all_violations data = [] \<or>
   (\<exists>x. validate_errors lib data = [x] \<and> x \<in> set (all_violations data))"
proof (cases "all_errors lib data")
  case Nil
  then have "all_violations data = []" using all_errors_empty [of lib data] by simp
  with Nil show ?thesis by (simp add: validate_errors_first)
next
  case (Cons x xs)
  then have "x \<in> set (all_violations data)"
    using all_errors_set [of lib data] by auto
  with Cons show ?thesis by (simp add: validate_errors_first)
qed

lemma example_violations: "all_violations example_statement = []"
  by (simp add: all_violations_def example_statement_def field_violations_def member_def)

text \<open>
  C1, as the code has it. The validator is compiled with the library's default options,
  so a run ends at the first violation it meets. Under either generation of the
  library the verdict is \<open>valid = True\<close> with no error list exactly when the record has
  no violation, and otherwise \<open>valid = False\<close> with a list that holds one error only,
  one of the violations of the record. Validating \<^verbatim>\<open>{"actor":{"name":"John"}}\<close> gives
  \<open>valid = False\<close> and a single error: that \<^verbatim>\<open>verb\<close> is missing under the newer
  generation, that \<^verbatim>\<open>actor.mbox\<close> is missing under the older one.
\<close>

theorem validator_reports_one_violation:
  "valid (validateStatement lib data) = (all_violations data = []) \<and>
   (all_violations data = [] \<longrightarrow> errors (validateStatement lib data) = None) \<and>
   (all_violations data \<noteq> [] \<longrightarrow>
      (\<exists>x \<in> set (all_violations data). errors (validateStatement lib data) = Some [x])) \<and>
   validateStatement Ajv8 john_only_name =
     \<lparr>valid = False, errors = Some [MissingProperty [] ''verb'']\<rparr> \<and>
   validateStatement Ajv6 john_only_name =
     \<lparr>valid = False, errors = Some [MissingProperty [''actor''] ''mbox'']\<rparr>"
proof -
  have v: "validate lib data \<longleftrightarrow> all_violations data = []"
    by (rule validate_iff_no_violations)
  have one: "all_violations data \<noteq> [] \<longrightarrow>
      (\<exists>x \<in> set (all_violations data). validate_errors lib data = [x])"
    using validate_errors_single [of lib data] by auto
  have j: "\<not> validate Ajv8 john_only_name" "\<not> validate Ajv6 john_only_name"
    by (simp_all add: validate_def john_errors_8 john_errors_6)
  show ?thesis
    using v one j by (simp add: validateStatement_def john_errors_8 john_errors_6)
qed

theorem validator_reports_one_violation_witness:
  "valid (validateStatement Ajv6 example_statement) \<and>
   errors (validateStatement Ajv6 example_statement) = None \<and>
   \<not> valid (validateStatement Ajv8 john_only_name) \<and>
   (errors (validateStatement Ajv8 john_only_name) = Some [MissingProperty [''actor''] ''mbox''] \<or>
    errors (validateStatement Ajv8 john_only_name) = Some [MissingProperty [] ''verb''] \<or>
    errors (validateStatement Ajv8 john_only_name) = Some [MissingProperty [] ''object''])"
  using validator_reports_one_violation [of Ajv6 example_statement]
    validator_reports_one_violation [of Ajv8 john_only_name]
  by (simp add: example_violations john_violations)

text \<open>
  C1 as stated fails on the record of its own example: the record misses
  \<^verbatim>\<open>actor.mbox\<close>, \<^verbatim>\<open>verb\<close> and \<^verbatim>\<open>object\<close>, and the returned list cites one of
  the three under either generation of the library, never the missing \<^verbatim>\<open>object\<close>.
\<close>

theorem validator_all_errors_counterexample:
  "MissingProperty [''actor''] ''mbox'' \<in> set (all_violations john_only_name) \<and>
   MissingProperty [] ''verb'' \<in> set (all_violations john_only_name) \<and>
   MissingProperty [] ''object'' \<in> set (all_violations john_only_name) \<and>
   errors (validateStatement Ajv8 john_only_name) = Some [MissingProperty [] ''verb''] \<and>
   errors (validateStatement Ajv6 john_only_name) = Some [MissingProperty [''actor''] ''mbox'']"
  by (simp add: john_violations validateStatement_def validate_def john_errors_8 john_errors_6)

text \<open>
  C3, as the code has it. A record in which \<^verbatim>\<open>actor.name\<close>, \<^verbatim>\<open>actor.mbox\<close> and
  \<^verbatim>\<open>verb.id\<close> are present as text and \<^verbatim>\<open>verb.display\<close> and \<^verbatim>\<open>object\<close> are
  present as objects is valid, under either generation of the library.
\<close>

theorem well_typed_record_is_valid:
  assumes "get_path data [''actor'', ''name''] = Some (JStr name)"
    and "get_path data [''actor'', ''mbox''] = Some (JStr mbox)"
    and "get_path data [''verb'', ''id''] = Some (JStr vid)"
    and "get_path data [''verb'', ''display''] = Some (JObj display)"
    and "get_path data [''object''] = Some (JObj obj)"
  shows "validateStatement lib data = \<lparr>valid = True, errors = None\<rparr>"
proof -
  from assms have "storable data"
    by (simp add: storable_def has_type_def)
  then have "validate lib data" by (simp add: validate_iff_storable)
  then show ?thesis by (simp add: validateStatement_def)
qed

theorem well_typed_record_is_valid_witness:
  "validateStatement Ajv8 example_statement = \<lparr>valid = True, errors = None\<rparr> \<and>
   validateStatement Ajv6 example_statement = \<lparr>valid = True, errors = None\<rparr>"
proof -
  note T = well_typed_record_is_valid
        [of example_statement "''John''" "''mailto:john@x.com''"
            "''http://adlnet.gov/expapi/verbs/completed''" "[(''en-US'', JStr ''completed'')]"
            "[(''objectType'', JStr ''Activity''), (''name'', JStr ''Course'')]"]
  have "validateStatement Ajv8 example_statement = \<lparr>valid = True, errors = None\<rparr>"
    by (rule T) (simp_all add: example_statement_def member_def)
  moreover have "validateStatement Ajv6 example_statement = \<lparr>valid = True, errors = None\<rparr>"
    by (rule T) (simp_all add: example_statement_def member_def)
  ultimately show ?thesis by simp
qed

lemma object_as_text_errors:
  "validate_errors lib object_as_text = [WrongType [''object''] T_object]"
proof -
  have "all_violations object_as_text = [WrongType [''object''] T_object]"
    by (simp add: all_violations_def object_as_text_def field_violations_def member_def)
  then show ?thesis
    using validate_errors_single [of lib object_as_text] by auto
qed

text \<open>
  C3 as stated fails: in this record the five fields are all present, \<^verbatim>\<open>object\<close> as
  the text \<^verbatim>\<open>Course\<close>, and the verdict is \<open>valid = False\<close> under either generation
  of the library.
\<close>

theorem present_fields_counterexample:
  "present object_as_text [''actor'', ''name''] \<and>
   present object_as_text [''actor'', ''mbox''] \<and>
   present object_as_text [''verb'', ''id''] \<and>
   present object_as_text [''verb'', ''display''] \<and>
   present object_as_text [''object''] \<and>
   validateStatement Ajv8 object_as_text =
     \<lparr>valid = False, errors = Some [WrongType [''object''] T_object]\<rparr> \<and>
   validateStatement Ajv6 object_as_text =
     \<lparr>valid = False, errors = Some [WrongType [''object''] T_object]\<rparr>"
proof -
  have p: "present object_as_text [''actor'', ''name'']" "present object_as_text [''actor'', ''mbox'']"
    "present object_as_text [''verb'', ''id'']" "present object_as_text [''verb'', ''display'']"
    "present object_as_text [''object'']"
    by (simp_all add: present_def object_as_text_def member_def)
  have v: "validateStatement Ajv8 object_as_text =
      \<lparr>valid = False, errors = Some [WrongType [''object''] T_object]\<rparr>"
    "validateStatement Ajv6 object_as_text =
      \<lparr>valid = False, errors = Some [WrongType [''object''] T_object]\<rparr>"
    by (simp_all add: validateStatement_def validate_def object_as_text_errors)
  from p v show ?thesis by simp
qed


section \<open>Properties of the handlers\<close>

lemmas prog_defs =
  ret_def throw_def bind_def seq_def try_catch_def try_finally_def emit_def
  logger_error_def logger_warn_def logger_info_def console_log_def console_error_def
  logged_def parse_def client_close_def disconnect_def process_exit_def connect_def
  call_def insertOne_def insertMany_def find_def find_sorted_def aggregate_def
  distinct_values_def countDocuments_def updateOne_def deleteMany_def stats_def
  prompt_def inquirer_confirm_def inquirer_input_def array_filter_def

lemma bulkInsert_some_valid:
  assumes "filter (validate (ajv_lib e)) xs \<noteq> []" and "connected w \<or> conn_ok e"
    and "op_ok e (InsertMany (collectionName e) (filter (validate (ajv_lib e)) xs))"
  shows "bulkInsert e (JArr xs) w =
     (Ret None,
      w\<lparr>connected := True,
        ops := ops w @ [InsertMany (collectionName e) (filter (validate (ajv_lib e)) xs)],
        db := (db w)(collectionName e := db w (collectionName e) @ filter (validate (ajv_lib e)) xs),
        out := out w @ [LogInfo [PNat (length (filter (validate (ajv_lib e)) xs)),
                                 PStr '' records inserted successfully'']]\<rparr>)"
  using assms by (cases "connected w") (auto simp: bulkInsert_def prog_defs Let_def)

lemma bulkInsert_none_valid:
  assumes "filter (validate (ajv_lib e)) xs = []"
  shows "bulkInsert e (JArr xs) w =
     (if connected w \<or> conn_ok e
      then (Ret None, w\<lparr>connected := True,
              out := out w @ [LogError ''Error during bulk insert:'' (Some NoValidRecords)]\<rparr>)
      else (Exit 1, w\<lparr>out := out w @ [LogError ''Could not connect to MongoDB:'' (Some MongoError)]\<rparr>))"
  using assms by (cases "connected w") (auto simp: bulkInsert_def prog_defs Let_def)

lemma bulkStoreStatements_some_valid:
  assumes "filter (validate (ajv_lib e)) xs \<noteq> []" and "connected w \<or> conn_ok e"
    and "op_ok e (InsertMany (collectionName e) (filter (validate (ajv_lib e)) xs))"
  shows "bulkStoreStatements e (JArr xs) w =
     (Ret None,
      w\<lparr>connected := False,
        ops := ops w @ [InsertMany (collectionName e) (filter (validate (ajv_lib e)) xs)],
        db := (db w)(collectionName e := db w (collectionName e) @ filter (validate (ajv_lib e)) xs),
        out := out w @ [LogInfo [PNat (length (filter (validate (ajv_lib e)) xs)),
                                 PStr '' records inserted successfully'']]\<rparr>)"
  using assms by (cases "connected w") (auto simp: bulkStoreStatements_def prog_defs Let_def)

lemma bulkStoreStatements_none_valid:
  assumes "filter (validate (ajv_lib e)) xs = []"
  shows "bulkStoreStatements e (JArr xs) w =
     (if connected w \<or> conn_ok e
      then (Ret None, w\<lparr>connected := False,
              out := out w @ [LogError ''Error during bulk store:'' (Some NoValidRecords)]\<rparr>)
      else (Exit 1, w\<lparr>out := out w @ [LogError ''Could not connect to MongoDB:'' (Some MongoError)]\<rparr>))"
  using assms by (cases "connected w") (auto simp: bulkStoreStatements_def prog_defs Let_def)


lemma validate_example: "validate lib example_statement"
  by (simp add: validate_iff_no_violations example_violations)

lemma validate_john: "\<not> validate lib john_only_name"
  by (simp add: validate_iff_no_violations john_violations)

text \<open>
  The two functions are reached from three commands. \<^verbatim>\<open>bulk-store\<close> hands its parsed
  argument to \<^verbatim>\<open>bulkStoreStatements\<close>. \<^verbatim>\<open>bulkImport\<close> and \<^verbatim>\<open>import-statements\<close>
  read a file first, through the undeclared \<^verbatim>\<open>fs\<close>: they log the error and end there.
\<close>

lemma file_ingestion_stops_at_fs:
  "bulkImport e filepath w =
     (Ret (), w\<lparr>out := out w @ [LogError ''Error during bulk import:''
                                  (Some (ReferenceError ''fs is not defined''))]\<rparr>)"
  "importStatements e filePath w =
     (Ret None, w\<lparr>out := out w @ [LogError ''Error during import:''
                                    (Some (ReferenceError ''fs is not defined''))]\<rparr>)"
  by (simp_all add: bulkImport_def importStatements_def fs_readFileSync_def prog_defs)

text \<open>
  C2. Bulk ingestion, in both of its functions (\<^verbatim>\<open>bulkInsert\<close> and
  \<^verbatim>\<open>bulkStoreStatements\<close>), on a list of records. When some record passes the
  validator, the connection can be had and the server carries the call out, one
  \<^verbatim>\<open>insertMany\<close> is made, with exactly the records that pass, in their order; the
  collection grows by them and their count is logged. When no record passes, no call is
  made on the server, the collections stay as they were and an error is logged; with
  the connection at hand that error is "No valid records found".
\<close>

theorem bulk_ingestion_inserts_valid_subset:
  assumes "(h, msg) = (bulkInsert, ''Error during bulk insert:'') \<or>
           (h, msg) = (bulkStoreStatements, ''Error during bulk store:'')"
  shows
    "(filter (validate (ajv_lib e)) xs \<noteq> [] \<longrightarrow> (connected w \<or> conn_ok e) \<longrightarrow>
        op_ok e (InsertMany (collectionName e) (filter (validate (ajv_lib e)) xs)) \<longrightarrow>
        fst (h e (JArr xs) w) = Ret None \<and>
        ops (snd (h e (JArr xs) w)) = ops w @ [InsertMany (collectionName e) (filter (validate (ajv_lib e)) xs)] \<and>
        db (snd (h e (JArr xs) w)) =
          (db w)(collectionName e := db w (collectionName e) @ filter (validate (ajv_lib e)) xs) \<and>
        out (snd (h e (JArr xs) w)) =
          out w @ [LogInfo [PNat (length (filter (validate (ajv_lib e)) xs)), PStr '' records inserted successfully'']]) \<and>
     (filter (validate (ajv_lib e)) xs = [] \<longrightarrow>
        ops (snd (h e (JArr xs) w)) = ops w \<and>
        db (snd (h e (JArr xs) w)) = db w \<and>
        (\<exists>m x. out (snd (h e (JArr xs) w)) = out w @ [LogError m (Some x)]) \<and>
        ((connected w \<or> conn_ok e) \<longrightarrow>
           fst (h e (JArr xs) w) = Ret None \<and>
           out (snd (h e (JArr xs) w)) = out w @ [LogError msg (Some NoValidRecords)]))"
proof -
  from assms consider
      (insert) "h = bulkInsert" "msg = ''Error during bulk insert:''"
    | (store) "h = bulkStoreStatements" "msg = ''Error during bulk store:''"
    by auto
  then show ?thesis
  proof cases
    case insert
    show ?thesis
      unfolding insert
      by (simp add: bulkInsert_some_valid bulkInsert_none_valid)
  next
    case store
    show ?thesis
      unfolding store
      by (simp add: bulkStoreStatements_some_valid bulkStoreStatements_none_valid)
  qed
qed

theorem bulk_ingestion_inserts_valid_subset_witness:
  "ops (snd (bulkStoreStatements sample_env (JArr [john_only_name, example_statement, john_only_name]) fresh_world)) =
     [InsertMany ''statements'' [example_statement]] \<and>
   db (snd (bulkStoreStatements sample_env (JArr [john_only_name, example_statement, john_only_name]) fresh_world))
      ''statements'' = [example_statement] \<and>
   out (snd (bulkStoreStatements sample_env (JArr [john_only_name, example_statement, john_only_name]) fresh_world)) =
     [LogInfo [PNat 1, PStr '' records inserted successfully'']] \<and>
   ops (snd (bulkInsert sample_env (JArr [john_only_name]) fresh_world)) = [] \<and>
   out (snd (bulkInsert sample_env (JArr [john_only_name]) fresh_world)) =
     [LogError ''Error during bulk insert:'' (Some NoValidRecords)]"
proof -
  have env: "conn_ok sample_env" "collectionName sample_env = ''statements''"
    "op_ok sample_env (InsertMany ''statements'' [example_statement])"
    by (simp_all add: sample_env_def)
  have world: "ops fresh_world = []" "out fresh_world = []" "db fresh_world ''statements'' = []"
    by (simp_all add: fresh_world_def)
  show ?thesis
    using bulk_ingestion_inserts_valid_subset
      [where h = bulkStoreStatements and msg = "''Error during bulk store:''"
         and xs = "[john_only_name, example_statement, john_only_name]"
         and w = fresh_world and e = sample_env]
      bulk_ingestion_inserts_valid_subset
      [where h = bulkInsert and msg = "''Error during bulk insert:''" and xs = "[john_only_name]"
         and w = fresh_world and e = sample_env]
    by (simp add: validate_example validate_john env world)
qed


lemma createRecord_invalid:
  assumes "\<not> validate (ajv_lib e) data"
  shows "createRecord e data w =
     (if connected w \<or> conn_ok e
      then (Ret None, w\<lparr>connected := True,
              out := out w @ [LogError ''Error while creating record:''
                                (Some (ValidationFailed (validate_errors (ajv_lib e) data)))]\<rparr>)
      else (Exit 1, w\<lparr>out := out w @ [LogError ''Could not connect to MongoDB:'' (Some MongoError)]\<rparr>))"
  using assms by (cases "connected w") (auto simp: createRecord_def prog_defs Let_def)

lemma createRecord_valid:
  assumes "validate (ajv_lib e) data" and "connected w \<or> conn_ok e"
    and "op_ok e (InsertOne (collectionName e) data)"
  shows "createRecord e data w =
     (Ret None,
      w\<lparr>connected := True,
        ops := ops w @ [InsertOne (collectionName e) data],
        db := (db w)(collectionName e := db w (collectionName e) @ [data]),
        out := out w @ [LogInfo [PStr ''Record created successfully'']]\<rparr>)"
  using assms by (cases "connected w") (auto simp: createRecord_def prog_defs Let_def)

text \<open>
  C4, as the code has it. For a record that fails validation \<^verbatim>\<open>createRecord\<close> makes
  no call on the server and leaves the collections as they were. When the connection
  can be had it logs the validator's error list, which holds the first violation only,
  and returns; when it cannot, \<^verbatim>\<open>connect\<close> logs the connection error and ends the
  process with code 1 before the record is validated.
\<close>

theorem createRecord_invalid_skips_insert:
  assumes "\<not> validate (ajv_lib e) data"
  shows "ops (snd (createRecord e data w)) = ops w \<and>
         db (snd (createRecord e data w)) = db w \<and>
         (connected w \<or> conn_ok e \<longrightarrow>
            fst (createRecord e data w) = Ret None \<and>
            out (snd (createRecord e data w)) =
              out w @ [LogError ''Error while creating record:''
                         (Some (ValidationFailed (take 1 (all_errors (ajv_lib e) data))))]) \<and>
         (\<not> connected w \<and> \<not> conn_ok e \<longrightarrow>
            fst (createRecord e data w) = Exit 1 \<and>
            out (snd (createRecord e data w)) =
              out w @ [LogError ''Could not connect to MongoDB:'' (Some MongoError)])"
  using assms by (simp add: createRecord_invalid validate_errors_first)

theorem createRecord_invalid_skips_insert_witness:
  "\<not> validate (ajv_lib sample_env) john_only_name \<and>
   ops (snd (createRecord sample_env john_only_name stocked_world)) = [] \<and>
   db (snd (createRecord sample_env john_only_name stocked_world)) ''statements'' = [example_statement] \<and>
   fst (createRecord sample_env john_only_name stocked_world) = Ret None \<and>
   fst (createRecord unreachable_env john_only_name stocked_world) = Exit 1"
  using createRecord_invalid_skips_insert [OF validate_john, of sample_env stocked_world]
    createRecord_invalid_skips_insert [OF validate_john, of unreachable_env stocked_world]
  by (simp add: validate_john sample_env_def unreachable_env_def stocked_world_def fresh_world_def)

text \<open>
  C4 as stated fails on the record \<^verbatim>\<open>{"actor":{"name":"John"}}\<close>: it misses
  \<^verbatim>\<open>actor.mbox\<close>, \<^verbatim>\<open>verb\<close> and \<^verbatim>\<open>object\<close>, and the list that is logged
  holds one of the three: the missing \<^verbatim>\<open>verb\<close> under the newer generation of the
  library, the missing \<^verbatim>\<open>actor.mbox\<close> under the older one.
\<close>

theorem createRecord_full_list_counterexample:
  "all_violations john_only_name =
     [MissingProperty [''actor''] ''mbox'', MissingProperty [] ''verb'', MissingProperty [] ''object''] \<and>
   out (snd (createRecord sample_env john_only_name fresh_world)) =
     [LogError ''Error while creating record:''
        (Some (ValidationFailed [MissingProperty [] ''verb'']))] \<and>
   out (snd (createRecord legacy_env john_only_name fresh_world)) =
     [LogError ''Error while creating record:''
        (Some (ValidationFailed [MissingProperty [''actor''] ''mbox'']))]"
  by (simp add: john_violations createRecord_invalid validate_john john_errors_8 john_errors_6
      legacy_env_def sample_env_def fresh_world_def)

lemma queryRecords_parsed:
  assumes "JSON_parse e f = Some v" and "connected w \<or> conn_ok e" and "op_ok e (Find (collectionName e) v)"
  shows "queryRecords e f w =
     (Ret None,
      w\<lparr>connected := True,
        ops := ops w @ [Find (collectionName e) v],
        out := out w @ [Print [PVal (Some (JArr (reply e (Find (collectionName e) v) (db w (collectionName e)))))]]\<rparr>)"
  using assms by (cases "connected w") (auto simp: queryRecords_def prog_defs Let_def)

text \<open>
  C8 fails on the code. After \<^verbatim>\<open>createRecord\<close>, \<^verbatim>\<open>queryRecords\<close> and
  \<^verbatim>\<open>bulkInsert\<close> have run to their end the shared client is still connected: the
  three have no \<^verbatim>\<open>finally\<close> block. \<^verbatim>\<open>bulkStoreStatements\<close>, whose body is that of
  \<^verbatim>\<open>bulkInsert\<close> followed by \<^verbatim>\<open>finally { await client.close(); }\<close>, leaves it
  closed.
\<close>

theorem connection_left_open:
  "connected (snd (createRecord sample_env example_statement fresh_world)) \<and>
   connected (snd (queryRecords sample_env ''{}'' fresh_world)) \<and>
   connected (snd (bulkInsert sample_env (JArr [example_statement]) fresh_world)) \<and>
   \<not> connected (snd (bulkStoreStatements sample_env (JArr [example_statement]) fresh_world))"
proof -
  have env: "conn_ok sample_env" "op_ok sample_env = (\<lambda>op. True)"
    "JSON_parse sample_env ''{}'' = Some (JObj [])"
    by (simp_all add: sample_env_def sample_parse_def)
  show ?thesis
    by (simp add: createRecord_valid queryRecords_parsed bulkInsert_some_valid
        bulkStoreStatements_some_valid validate_example env)
qed


section \<open>Properties of the reset\<close>

lemma reset_db_no_input: "stdin w = [] \<Longrightarrow> reset_db e w = (Blocked, w)"
  by (simp add: reset_db_def prog_defs)

lemma reset_db_first_no:
  assumes "stdin w = Line s1 # rest" and "\<not> confirm_answer (Some False) s1"
  shows "reset_db e w =
     (Ret (), w\<lparr>stdin := rest, out := out w @ [Print [PStr ''Operation cancelled.'']]\<rparr>)"
  using assms by (simp add: reset_db_def prog_defs)

lemma reset_db_second_no:
  assumes "stdin w = Line s1 # Line s2 # rest" and "confirm_answer (Some False) s1"
    and "\<not> confirm_answer None s2"
  shows "reset_db e w =
     (Ret (), w\<lparr>stdin := rest, connected := False,
               out := out w @ [Print [PStr ''Database reset cancelled.''],
                               Print [PStr ''Database records purged.'']]\<rparr>)"
  using assms by (simp add: reset_db_def resetDatabase_def prog_defs)

lemma reset_db_both_yes:
  assumes "stdin w = Line s1 # Line s2 # rest" and "confirm_answer (Some False) s1"
    and "confirm_answer None s2" and "connected w \<or> conn_ok e"
    and "op_ok e (DeleteMany (collectionName e) (JObj []))"
  shows "reset_db e w =
     (Ret (), w\<lparr>stdin := rest, connected := False,
               ops := ops w @ [DeleteMany (collectionName e) (JObj [])],
               db := (db w)(collectionName e := []),
               out := out w @ [Print [PStr ''Deleted '', PNat (length (db w (collectionName e))),
                                      PStr '' records.''],
                               Print [PStr ''Database records purged.'']]\<rparr>)"
  using assms by (cases "connected w") (auto simp: reset_db_def resetDatabase_def prog_defs Let_def)

lemma reset_db_both_yes_ops:
  assumes "stdin w = Line s1 # Line s2 # rest" and "confirm_answer (Some False) s1"
    and "confirm_answer None s2" and "connected w \<or> conn_ok e"
  shows "ops (snd (reset_db e w)) = ops w @ [DeleteMany (collectionName e) (JObj [])]"
  using assms
  by (cases "connected w"; cases "op_ok e (DeleteMany (collectionName e) (JObj []))")
     (auto simp: reset_db_def resetDatabase_def prog_defs Let_def)

lemma reset_db_unchanged:
  assumes "\<not> (\<exists>s1 s2 rest. stdin w = Line s1 # Line s2 # rest \<and>
               confirm_answer (Some False) s1 \<and> confirm_answer None s2)"
  shows "ops (snd (reset_db e w)) = ops w \<and> db (snd (reset_db e w)) = db w"
proof (cases "stdin w")
  case Nil
  then show ?thesis by (simp add: reset_db_no_input)
next
  case (Cons i rest)
  show ?thesis
  proof (cases i)
    case PromptFailure
    with Cons show ?thesis by (simp add: reset_db_def prog_defs)
  next
    case (Line s1)
    show ?thesis
    proof (cases "confirm_answer (Some False) s1")
      case False
      with Cons Line show ?thesis by (simp add: reset_db_first_no)
    next
      case True
      show ?thesis
      proof (cases rest)
        case Nil
        with Cons Line True show ?thesis
          by (simp add: reset_db_def resetDatabase_def prog_defs)
      next
        case (Cons i2 rest2)
        show ?thesis
        proof (cases i2)
          case PromptFailure
          with \<open>stdin w = i # rest\<close> Line True Cons show ?thesis
            by (simp add: reset_db_def resetDatabase_def prog_defs)
        next
          case (Line s2)
          with \<open>stdin w = i # rest\<close> \<open>i = Line s1\<close> True Cons assms
          have "\<not> confirm_answer None s2" by simp
          with \<open>stdin w = i # rest\<close> \<open>i = Line s1\<close> True Cons Line show ?thesis
            by (simp add: reset_db_second_no)
        qed
      qed
    qed
  qed
qed

text \<open>
  C10. The action of \<^verbatim>\<open>reset-db\<close> makes a call on the server, or changes a
  collection, only when both prompts were answered and both answers were a yes: the
  prompt of the action and then the prompt inside \<^verbatim>\<open>resetDatabase\<close>. With two such
  answers and the connection at hand the call made is \<^verbatim>\<open>deleteMany({})\<close> on the
  configured collection, which the server then empties. A no at the first prompt, or a
  no at the second, leaves every collection as it was and makes no call.
\<close>

theorem reset_db_needs_two_confirmations:
  "(ops (snd (reset_db e w)) \<noteq> ops w \<or> db (snd (reset_db e w)) \<noteq> db w \<longrightarrow>
      (\<exists>s1 s2 rest. stdin w = Line s1 # Line s2 # rest \<and>
         confirm_answer (Some False) s1 \<and> confirm_answer None s2)) \<and>
   (stdin w = Line s1 # Line s2 # rest \<and> confirm_answer (Some False) s1 \<and>
    confirm_answer None s2 \<and> (connected w \<or> conn_ok e) \<longrightarrow>
      ops (snd (reset_db e w)) = ops w @ [DeleteMany (collectionName e) (JObj [])] \<and>
      (op_ok e (DeleteMany (collectionName e) (JObj [])) \<longrightarrow>
         db (snd (reset_db e w)) = (db w)(collectionName e := []))) \<and>
   (stdin w = Line s1 # rest' \<and> \<not> confirm_answer (Some False) s1 \<longrightarrow>
      ops (snd (reset_db e w)) = ops w \<and> db (snd (reset_db e w)) = db w) \<and>
   (stdin w = Line s1 # Line s2 # rest \<and> \<not> confirm_answer None s2 \<longrightarrow>
      ops (snd (reset_db e w)) = ops w \<and> db (snd (reset_db e w)) = db w)"
proof (intro conjI impI)
  assume "ops (snd (reset_db e w)) \<noteq> ops w \<or> db (snd (reset_db e w)) \<noteq> db w"
  then show "\<exists>s1 s2 rest. stdin w = Line s1 # Line s2 # rest \<and>
         confirm_answer (Some False) s1 \<and> confirm_answer None s2"
    using reset_db_unchanged [of w e] by blast
next
  assume a: "stdin w = Line s1 # Line s2 # rest \<and> confirm_answer (Some False) s1 \<and>
    confirm_answer None s2 \<and> (connected w \<or> conn_ok e)"
  then show "ops (snd (reset_db e w)) = ops w @ [DeleteMany (collectionName e) (JObj [])]"
    by (simp add: reset_db_both_yes_ops)
  assume "op_ok e (DeleteMany (collectionName e) (JObj []))"
  with a show "db (snd (reset_db e w)) = (db w)(collectionName e := [])"
    by (simp add: reset_db_both_yes)
next
  assume a: "stdin w = Line s1 # rest' \<and> \<not> confirm_answer (Some False) s1"
  then have "reset_db e w =
     (Ret (), w\<lparr>stdin := rest', out := out w @ [Print [PStr ''Operation cancelled.'']]\<rparr>)"
    by (simp add: reset_db_first_no)
  then show "ops (snd (reset_db e w)) = ops w" "db (snd (reset_db e w)) = db w" by simp_all
next
  assume a: "stdin w = Line s1 # Line s2 # rest \<and> \<not> confirm_answer None s2"
  then have "\<not> (\<exists>t1 t2 r. stdin w = Line t1 # Line t2 # r \<and>
               confirm_answer (Some False) t1 \<and> confirm_answer None t2)" by auto
  then show "ops (snd (reset_db e w)) = ops w" "db (snd (reset_db e w)) = db w"
    using reset_db_unchanged [of w e] by simp_all
qed

theorem reset_db_needs_two_confirmations_witness:
  "ops (snd (reset_db sample_env (stocked_world\<lparr>stdin := [Line ''y'', Line ''yes'']\<rparr>))) =
     [DeleteMany ''statements'' (JObj [])] \<and>
   db (snd (reset_db sample_env (stocked_world\<lparr>stdin := [Line ''y'', Line ''yes'']\<rparr>))) ''statements'' = [] \<and>
   ops (snd (reset_db sample_env (stocked_world\<lparr>stdin := [Line ''y'', Line ''n'']\<rparr>))) = [] \<and>
   db (snd (reset_db sample_env (stocked_world\<lparr>stdin := [Line ''y'', Line ''n'']\<rparr>))) ''statements'' =
     [example_statement] \<and>
   ops (snd (reset_db sample_env (stocked_world\<lparr>stdin := [Line ''n'']\<rparr>))) = [] \<and>
   db (snd (reset_db sample_env (stocked_world\<lparr>stdin := [Line ''n'']\<rparr>))) ''statements'' =
     [example_statement]"
  using reset_db_needs_two_confirmations
      [where e = sample_env and w = "stocked_world\<lparr>stdin := [Line ''y'', Line ''yes'']\<rparr>"
         and ?s1.0 = "''y''" and ?s2.0 = "''yes''" and rest = "[]" and rest' = "[Line ''yes'']"]
    reset_db_needs_two_confirmations
      [where e = sample_env and w = "stocked_world\<lparr>stdin := [Line ''y'', Line ''n'']\<rparr>"
         and ?s1.0 = "''y''" and ?s2.0 = "''n''" and rest = "[]" and rest' = "[Line ''n'']"]
    reset_db_needs_two_confirmations
      [where e = sample_env and w = "stocked_world\<lparr>stdin := [Line ''n'']\<rparr>"
         and ?s1.0 = "''n''" and ?s2.0 = "''n''" and rest = "[]" and rest' = "[]"]
  by (simp add: confirm_answer_def sample_env_def stocked_world_def fresh_world_def)

text \<open>
  C6 fails on the code. The prompt inside \<^verbatim>\<open>resetDatabase\<close> sets no default, and
  the library's default for a prompt of type \<^verbatim>\<open>confirm\<close> is yes: with a \<^verbatim>\<open>y\<close> at
  the prompt of the action and an empty line at this one, \<^verbatim>\<open>deleteMany\<close> is made and
  the one stored record is deleted. The prompt of the action sets
  \<^verbatim>\<open>default: false\<close>, and there an empty line is a no.
\<close>

theorem reset_proceeds_on_empty_line:
  "confirm_answer None [] \<and>
   \<not> confirm_answer (Some False) [] \<and>
   reset_db sample_env (stocked_world\<lparr>stdin := [Line ''y'', Line []]\<rparr>) =
     (Ret (),
      stocked_world\<lparr>stdin := [], connected := False,
        ops := [DeleteMany ''statements'' (JObj [])],
        db := (db stocked_world)(''statements'' := []),
        out := [Print [PStr ''Deleted '', PNat 1, PStr '' records.''],
                Print [PStr ''Database records purged.'']]\<rparr>)"
proof -
  let ?w = "stocked_world\<lparr>stdin := [Line ''y'', Line []]\<rparr>"
  have "reset_db sample_env ?w =
     (Ret (), ?w\<lparr>stdin := [], connected := False,
               ops := ops ?w @ [DeleteMany (collectionName sample_env) (JObj [])],
               db := (db ?w)(collectionName sample_env := []),
               out := out ?w @ [Print [PStr ''Deleted '', PNat (length (db ?w (collectionName sample_env))),
                                      PStr '' records.''],
                               Print [PStr ''Database records purged.'']]\<rparr>)"
    by (rule reset_db_both_yes [where ?s1.0 = "''y''" and ?s2.0 = "[]"])
       (simp_all add: confirm_answer_def sample_env_def)
  then show ?thesis
    by (simp add: confirm_answer_def sample_env_def stocked_world_def fresh_world_def)
qed

section \<open>Properties of the parsing actions\<close>

text \<open>
  C7 fails on the code. The action of \<^verbatim>\<open>bulk-store\<close> calls \<^verbatim>\<open>JSON.parse\<close> outside
  every \<^verbatim>\<open>try\<close> block: on a text that does not parse the error leaves the action
  and nothing is logged (no call is made on the server either). The actions of
  \<^verbatim>\<open>validate\<close> and \<^verbatim>\<open>check-profile\<close> do the same. The action of \<^verbatim>\<open>create\<close>
  wraps the same call in \<^verbatim>\<open>try\<close> and logs the error.
\<close>

theorem bulk_store_parse_error_escapes:
  "JSON_parse sample_env ''{'' = None \<and>
   bulk_store sample_env ''{'' fresh_world = (Throw SyntaxError, fresh_world) \<and>
   validate_cmd sample_env ''{'' fresh_world = (Throw SyntaxError, fresh_world) \<and>
   check_profile sample_env ''p'' ''{'' fresh_world = (Throw SyntaxError, fresh_world) \<and>
   create sample_env ''{'' fresh_world =
     (Ret (), fresh_world\<lparr>out := [LogError ''Error during record creation:'' (Some SyntaxError)]\<rparr>)"
  by (simp add: bulk_store_def validate_cmd_def check_profile_def create_def prog_defs
      sample_env_def sample_parse_def fresh_world_def)


section \<open>Properties that pass through the combinators\<close>

lemma fst_bind:
  "fst (bind m k w) =
     (case fst (m w) of
        Ret x \<Rightarrow> fst (k x (snd (m w)))
      | Throw x \<Rightarrow> Throw x
      | Exit n \<Rightarrow> Exit n
      | Blocked \<Rightarrow> Blocked)"
  by (simp add: bind_def split: prod.splits res.splits)

lemma fst_try_catch:
  "fst (try_catch m h w) =
     (case fst (m w) of
        Throw x \<Rightarrow> fst (h x (snd (m w)))
      | Ret x \<Rightarrow> Ret x
      | Exit n \<Rightarrow> Exit n
      | Blocked \<Rightarrow> Blocked)"
  by (simp add: try_catch_def split: prod.splits res.splits)

lemma fst_try_finally:
  "fst (try_finally m f w) =
     (case fst (m w) of
        Exit n \<Rightarrow> Exit n
      | Blocked \<Rightarrow> Blocked
      | r \<Rightarrow>
          (case fst (f (snd (m w))) of
             Ret u \<Rightarrow> r
           | Throw x \<Rightarrow> Throw x
           | Exit n \<Rightarrow> Exit n
           | Blocked \<Rightarrow> Blocked))"
  by (simp add: try_finally_def split: prod.splits res.splits)

subsection \<open>Exit codes\<close>

lemma exitsD:
  "exits_only_unconnected e m \<Longrightarrow> fst (m w) = Exit n \<Longrightarrow>
   n = 1 \<and> \<not> conn_ok e \<and>
   (\<exists>xs. out (snd (m w)) = xs @ [LogError ''Could not connect to MongoDB:'' (Some MongoError)])"
  by (simp add: exits_only_unconnected_def)

lemma bind_exit:
  "fst (bind m k w) = Exit n \<Longrightarrow>
   (fst (m w) = Exit n \<and> snd (bind m k w) = snd (m w)) \<or>
   (\<exists>x. fst (k x (snd (m w))) = Exit n \<and> snd (bind m k w) = snd (k x (snd (m w))))"
  by (auto simp: bind_def split: prod.splits res.splits)

lemma try_catch_exit:
  "fst (try_catch m h w) = Exit n \<Longrightarrow>
   (fst (m w) = Exit n \<and> snd (try_catch m h w) = snd (m w)) \<or>
   (\<exists>x. fst (h x (snd (m w))) = Exit n \<and> snd (try_catch m h w) = snd (h x (snd (m w))))"
  by (auto simp: try_catch_def split: prod.splits res.splits)

lemma try_finally_exit:
  "fst (try_finally m f w) = Exit n \<Longrightarrow>
   (fst (m w) = Exit n \<and> snd (try_finally m f w) = snd (m w)) \<or>
   (fst (f (snd (m w))) = Exit n \<and> snd (try_finally m f w) = snd (f (snd (m w))))"
  by (auto simp: try_finally_def split: prod.splits res.splits)

lemma exits_bind:
  assumes "exits_only_unconnected e m" and "\<And>x. exits_only_unconnected e (k x)"
  shows "exits_only_unconnected e (bind m k)"
  unfolding exits_only_unconnected_def
proof (intro allI impI)
  fix w n
  assume "fst (bind m k w) = Exit n"
  then consider "fst (m w) = Exit n" "snd (bind m k w) = snd (m w)"
    | x where "fst (k x (snd (m w))) = Exit n" "snd (bind m k w) = snd (k x (snd (m w)))"
    using bind_exit [of m k w n] by blast
  then show "n = 1 \<and> \<not> conn_ok e \<and>
        (\<exists>xs. out (snd (bind m k w)) = xs @ [LogError ''Could not connect to MongoDB:'' (Some MongoError)])"
  proof cases
    case 1
    with exitsD [OF assms(1), of w n] show ?thesis by simp
  next
    case 2
    with exitsD [OF assms(2), of x "snd (m w)" n] show ?thesis by simp
  qed
qed

lemma exits_seq:
  "exits_only_unconnected e m \<Longrightarrow> exits_only_unconnected e k \<Longrightarrow>
   exits_only_unconnected e (seq m k)"
  by (simp add: seq_def exits_bind)

lemma exits_try_catch:
  assumes "exits_only_unconnected e m" and "\<And>x. exits_only_unconnected e (h x)"
  shows "exits_only_unconnected e (try_catch m h)"
  unfolding exits_only_unconnected_def
proof (intro allI impI)
  fix w n
  assume "fst (try_catch m h w) = Exit n"
  then consider "fst (m w) = Exit n" "snd (try_catch m h w) = snd (m w)"
    | x where "fst (h x (snd (m w))) = Exit n" "snd (try_catch m h w) = snd (h x (snd (m w)))"
    using try_catch_exit [of m h w n] by blast
  then show "n = 1 \<and> \<not> conn_ok e \<and>
        (\<exists>xs. out (snd (try_catch m h w)) = xs @ [LogError ''Could not connect to MongoDB:'' (Some MongoError)])"
  proof cases
    case 1
    with exitsD [OF assms(1), of w n] show ?thesis by simp
  next
    case 2
    with exitsD [OF assms(2), of x "snd (m w)" n] show ?thesis by simp
  qed
qed

lemma exits_try_finally:
  assumes "exits_only_unconnected e m" and "exits_only_unconnected e f"
  shows "exits_only_unconnected e (try_finally m f)"
  unfolding exits_only_unconnected_def
proof (intro allI impI)
  fix w n
  assume "fst (try_finally m f w) = Exit n"
  then consider "fst (m w) = Exit n" "snd (try_finally m f w) = snd (m w)"
    | "fst (f (snd (m w))) = Exit n" "snd (try_finally m f w) = snd (f (snd (m w)))"
    using try_finally_exit [of m f w n] by blast
  then show "n = 1 \<and> \<not> conn_ok e \<and>
        (\<exists>xs. out (snd (try_finally m f w)) = xs @ [LogError ''Could not connect to MongoDB:'' (Some MongoError)])"
  proof cases
    case 1
    with exitsD [OF assms(1), of w n] show ?thesis by simp
  next
    case 2
    with exitsD [OF assms(2), of "snd (m w)" n] show ?thesis by simp
  qed
qed

lemma exits_if:
  "exits_only_unconnected e m \<Longrightarrow> exits_only_unconnected e k \<Longrightarrow>
   exits_only_unconnected e (if b then m else k)"
  by simp

lemma exits_basic:
  "exits_only_unconnected e (ret x)"
  "exits_only_unconnected e (throw y)"
  "exits_only_unconnected e (emit o1)"
  "exits_only_unconnected e (logger_error msg eo)"
  "exits_only_unconnected e (logger_warn msg)"
  "exits_only_unconnected e (logger_info ps)"
  "exits_only_unconnected e (console_log ps)"
  "exits_only_unconnected e (logged msg y)"
  "exits_only_unconnected e (parse e' s)"
  "exits_only_unconnected e client_close"
  "exits_only_unconnected e (connect e)"
  "exits_only_unconnected e (fs_readFileSync path)"
  "exits_only_unconnected e (fs_writeFileSync path rs)"
  "exits_only_unconnected e (array_filter p d)"
  "exits_only_unconnected e (first_avgScore rs)"
  "exits_only_unconnected e (json2csv_parse rs)"
  "exits_only_unconnected e (ObjectId s)"
  "exits_only_unconnected e (exec e' cmd)"
  "exits_only_unconnected e (prompt f)"
  "exits_only_unconnected e (inquirer_confirm dflt)"
  "exits_only_unconnected e inquirer_input"
  by (auto simp: exits_only_unconnected_def prog_defs first_avgScore_def json2csv_parse_def
        ObjectId_def exec_def fs_readFileSync_def fs_writeFileSync_def Let_def
      split: option.splits json.splits list.splits input.splits)

lemma exits_driver:
  "exits_only_unconnected e (call e' op)"
  "exits_only_unconnected e (insertOne e' c d)"
  "exits_only_unconnected e (insertMany e' c ds)"
  "exits_only_unconnected e (find e' c f)"
  "exits_only_unconnected e (find_sorted e' c f s)"
  "exits_only_unconnected e (aggregate e' c p)"
  "exits_only_unconnected e (distinct_values e' c k)"
  "exits_only_unconnected e (countDocuments e' c)"
  "exits_only_unconnected e (updateOne e' c f u)"
  "exits_only_unconnected e (deleteMany e' c)"
  "exits_only_unconnected e (stats e')"
  by (auto simp: exits_only_unconnected_def prog_defs Let_def)

lemmas exits_intros =
  exits_bind exits_seq exits_try_catch exits_try_finally exits_if exits_basic exits_driver

lemmas handler_defs =
  createRecord_def queryRecords_def bulkInsert_def listAllVerbs_def
  listAllActors_def visualizeData_def aggregateStatements_def getLRSStats_def
  groupStatementsByDate_def analyzeActivityInteractions_def getAverageScoreByActivity_def checkDatabaseHealth_def
  backupDatabase_def restoreDatabaseFromBackup_def resetDatabase_def bulkStoreStatements_def
  exportStatements_def importStatements_def registerNewVerb_def registerNewActivityType_def
  searchStatementsByContent_def listAllObjectTypes_def visualizeActorProgress_def setStatementAuthority_def
  getMostActiveActors_def visualizeVerbUsage_def listAllExtensions_def getStatementsByDuration_def

lemma exits_handlers:
  "exits_only_unconnected e (createRecord e d)"
  "exits_only_unconnected e (queryRecords e s)"
  "exits_only_unconnected e (bulkInsert e d)"
  "exits_only_unconnected e (listAllVerbs e)"
  "exits_only_unconnected e (listAllActors e)"
  "exits_only_unconnected e (visualizeData s)"
  "exits_only_unconnected e (aggregateStatements e s)"
  "exits_only_unconnected e (getLRSStats e)"
  "exits_only_unconnected e (groupStatementsByDate e s t)"
  "exits_only_unconnected e (analyzeActivityInteractions e s)"
  "exits_only_unconnected e (getAverageScoreByActivity e s)"
  "exits_only_unconnected e (checkDatabaseHealth e)"
  "exits_only_unconnected e (resetDatabase e)"
  "exits_only_unconnected e (bulkStoreStatements e d)"
  "exits_only_unconnected e (exportStatements e s t)"
  "exits_only_unconnected e (importStatements e s)"
  "exits_only_unconnected e (registerNewVerb e s t)"
  "exits_only_unconnected e (registerNewActivityType e s t)"
  "exits_only_unconnected e (searchStatementsByContent e s)"
  "exits_only_unconnected e (listAllObjectTypes e)"
  "exits_only_unconnected e (visualizeActorProgress e s)"
  "exits_only_unconnected e (setStatementAuthority e s t)"
  "exits_only_unconnected e (getMostActiveActors e)"
  "exits_only_unconnected e (visualizeVerbUsage e d)"
  "exits_only_unconnected e (listAllExtensions e)"
  "exits_only_unconnected e (getStatementsByDuration e s t)"
  unfolding handler_defs by (rule exits_intros)+

lemma shell_actions:
  "bind (backupDatabase e p) (\<lambda>callback. seq (console_log msg) callback) w =
     (Ret (),
      w\<lparr>shell := shell w @ [''mongodump --uri='' @ uri e @ '' --db='' @ dbName e @ '' --out='' @ p],
        db := exec_effect e (''mongodump --uri='' @ uri e @ '' --db='' @ dbName e @ '' --out='' @ p) (db w),
        out := out w @
          [Print msg,
           if exec_ok e (''mongodump --uri='' @ uri e @ '' --db='' @ dbName e @ '' --out='' @ p)
           then Print [PStr (''Database backed up successfully to '' @ p)]
           else LogError ''Error during database backup:'' (Some ShellError)]\<rparr>)"
  "bind (restoreDatabaseFromBackup e p) (\<lambda>callback. seq (console_log msg) callback) w =
     (Ret (),
      w\<lparr>shell := shell w @ [''mongorestore --uri='' @ uri e @ '' --db='' @ dbName e @ '' '' @ p @ ''/'' @ dbName e],
        db := exec_effect e (''mongorestore --uri='' @ uri e @ '' --db='' @ dbName e @ '' '' @ p @ ''/'' @ dbName e) (db w),
        out := out w @
          [Print msg,
           if exec_ok e (''mongorestore --uri='' @ uri e @ '' --db='' @ dbName e @ '' '' @ p @ ''/'' @ dbName e)
           then Print [PStr ''Database restored successfully from backup.'']
           else LogError ''Error during database restore:'' (Some ShellError)]\<rparr>)"
  by (simp_all add: backupDatabase_def restoreDatabaseFromBackup_def exec_def prog_defs)

lemma shell_actions_complete:
  "exits_only_unconnected e' (bind (backupDatabase e p) (\<lambda>callback. seq (console_log msg) callback))"
  "exits_only_unconnected e' (bind (restoreDatabaseFromBackup e p) (\<lambda>callback. seq (console_log msg) callback))"
  "never_blocks (bind (backupDatabase e p) (\<lambda>callback. seq (console_log msg) callback))"
  "never_blocks (bind (restoreDatabaseFromBackup e p) (\<lambda>callback. seq (console_log msg) callback))"
  "never_throws (bind (backupDatabase e p) (\<lambda>callback. seq (console_log msg) callback))"
  "never_throws (bind (restoreDatabaseFromBackup e p) (\<lambda>callback. seq (console_log msg) callback))"
  by (simp_all add: exits_only_unconnected_def never_blocks_def never_throws_def shell_actions)

lemma exits_interactiveMode: "exits_only_unconnected e interactiveMode"
  unfolding interactiveMode_def inquirer_input_def by (rule exits_intros)+

lemma exits_action: "exits_only_unconnected e (action e c)"
  by (cases c)
     (simp_all add: create_def bulkImport_def reset_db_def bulk_store_def validate_cmd_def
        check_profile_def printing_def inquirer_confirm_def
        exits_intros exits_handlers exits_interactiveMode shell_actions_complete)

subsection \<open>Waiting for input\<close>

lemma blocks_bind:
  "never_blocks m \<Longrightarrow> (\<And>x. never_blocks (k x)) \<Longrightarrow> never_blocks (bind m k)"
  unfolding never_blocks_def fst_bind by (auto split: res.splits)

lemma blocks_seq: "never_blocks m \<Longrightarrow> never_blocks k \<Longrightarrow> never_blocks (seq m k)"
  by (simp add: seq_def blocks_bind)

lemma blocks_try_catch:
  "never_blocks m \<Longrightarrow> (\<And>x. never_blocks (h x)) \<Longrightarrow> never_blocks (try_catch m h)"
  unfolding never_blocks_def fst_try_catch by (auto split: res.splits)

lemma blocks_try_finally:
  "never_blocks m \<Longrightarrow> never_blocks f \<Longrightarrow> never_blocks (try_finally m f)"
  unfolding never_blocks_def fst_try_finally by (auto split: res.splits)

lemma blocks_if: "never_blocks m \<Longrightarrow> never_blocks k \<Longrightarrow> never_blocks (if b then m else k)"
  by simp

lemma blocks_basic:
  "never_blocks (ret x)"
  "never_blocks (throw y)"
  "never_blocks (emit o1)"
  "never_blocks (logger_error msg eo)"
  "never_blocks (logger_warn msg)"
  "never_blocks (logger_info ps)"
  "never_blocks (console_log ps)"
  "never_blocks (logged msg y)"
  "never_blocks (parse e s)"
  "never_blocks client_close"
  "never_blocks (connect e)"
  "never_blocks (fs_readFileSync path)"
  "never_blocks (fs_writeFileSync path rs)"
  "never_blocks (array_filter p d)"
  "never_blocks (first_avgScore rs)"
  "never_blocks (json2csv_parse rs)"
  "never_blocks (ObjectId s)"
  "never_blocks (exec e cmd)"
  by (auto simp: never_blocks_def prog_defs first_avgScore_def json2csv_parse_def
        ObjectId_def exec_def fs_readFileSync_def fs_writeFileSync_def Let_def
      split: option.splits json.splits list.splits)

lemma blocks_driver:
  "never_blocks (call e op)"
  "never_blocks (insertOne e c d)"
  "never_blocks (insertMany e c ds)"
  "never_blocks (find e c f)"
  "never_blocks (find_sorted e c f s)"
  "never_blocks (aggregate e c p)"
  "never_blocks (distinct_values e c k)"
  "never_blocks (countDocuments e c)"
  "never_blocks (updateOne e c f u)"
  "never_blocks (deleteMany e c)"
  "never_blocks (stats e)"
  by (auto simp: never_blocks_def prog_defs Let_def)

lemmas blocks_intros =
  blocks_bind blocks_seq blocks_try_catch blocks_try_finally blocks_if blocks_basic blocks_driver

lemma blocks_handlers:
  "never_blocks (createRecord e d)"
  "never_blocks (queryRecords e s)"
  "never_blocks (bulkInsert e d)"
  "never_blocks (listAllVerbs e)"
  "never_blocks (listAllActors e)"
  "never_blocks (visualizeData s)"
  "never_blocks (aggregateStatements e s)"
  "never_blocks (getLRSStats e)"
  "never_blocks (groupStatementsByDate e s t)"
  "never_blocks (analyzeActivityInteractions e s)"
  "never_blocks (getAverageScoreByActivity e s)"
  "never_blocks (checkDatabaseHealth e)"
  "never_blocks (bulkStoreStatements e d)"
  "never_blocks (exportStatements e s t)"
  "never_blocks (importStatements e s)"
  "never_blocks (registerNewVerb e s t)"
  "never_blocks (registerNewActivityType e s t)"
  "never_blocks (searchStatementsByContent e s)"
  "never_blocks (listAllObjectTypes e)"
  "never_blocks (visualizeActorProgress e s)"
  "never_blocks (setStatementAuthority e s t)"
  "never_blocks (getMostActiveActors e)"
  "never_blocks (visualizeVerbUsage e d)"
  "never_blocks (listAllExtensions e)"
  "never_blocks (getStatementsByDuration e s t)"
  unfolding handler_defs by (rule blocks_intros)+

subsection \<open>Errors that leave a function\<close>

lemma throws_bind:
  "never_throws m \<Longrightarrow> (\<And>x. never_throws (k x)) \<Longrightarrow> never_throws (bind m k)"
  unfolding never_throws_def fst_bind by (auto split: res.splits)

lemma throws_seq: "never_throws m \<Longrightarrow> never_throws k \<Longrightarrow> never_throws (seq m k)"
  by (simp add: seq_def throws_bind)

lemma throws_try_catch: "(\<And>x. never_throws (h x)) \<Longrightarrow> never_throws (try_catch m h)"
  unfolding never_throws_def fst_try_catch by (auto split: res.splits)

lemma throws_try_finally:
  "never_throws m \<Longrightarrow> never_throws f \<Longrightarrow> never_throws (try_finally m f)"
  unfolding never_throws_def fst_try_finally by (auto split: res.splits)

lemma throws_if: "never_throws m \<Longrightarrow> never_throws k \<Longrightarrow> never_throws (if b then m else k)"
  by simp

lemma throws_basic:
  "never_throws (ret x)"
  "never_throws (emit o1)"
  "never_throws (logger_error msg eo)"
  "never_throws (logger_warn msg)"
  "never_throws (logger_info ps)"
  "never_throws (console_log ps)"
  "never_throws (logged msg y)"
  "never_throws client_close"
  "never_throws (connect e)"
  "never_throws (exec e cmd)"
  by (auto simp: never_throws_def prog_defs exec_def Let_def)

lemmas throws_intros =
  throws_bind throws_seq throws_try_catch throws_try_finally throws_if throws_basic

lemma throws_handlers:
  "never_throws (createRecord e d)"
  "never_throws (queryRecords e s)"
  "never_throws (bulkInsert e d)"
  "never_throws (listAllVerbs e)"
  "never_throws (listAllActors e)"
  "never_throws (visualizeData s)"
  "never_throws (aggregateStatements e s)"
  "never_throws (getLRSStats e)"
  "never_throws (groupStatementsByDate e s t)"
  "never_throws (analyzeActivityInteractions e s)"
  "never_throws (getAverageScoreByActivity e s)"
  "never_throws (checkDatabaseHealth e)"
  "never_throws (resetDatabase e)"
  "never_throws (bulkStoreStatements e d)"
  "never_throws (exportStatements e s t)"
  "never_throws (importStatements e s)"
  "never_throws (registerNewVerb e s t)"
  "never_throws (registerNewActivityType e s t)"
  "never_throws (searchStatementsByContent e s)"
  "never_throws (listAllObjectTypes e)"
  "never_throws (visualizeActorProgress e s)"
  "never_throws (setStatementAuthority e s t)"
  "never_throws (getMostActiveActors e)"
  "never_throws (visualizeVerbUsage e d)"
  "never_throws (listAllExtensions e)"
  "never_throws (getStatementsByDuration e s t)"
  unfolding handler_defs by (rule throws_intros)+

lemma blocks_action: "\<not> unguarded c \<Longrightarrow> never_blocks (action e c)"
  by (cases c)
     (simp_all add: create_def bulkImport_def printing_def blocks_intros blocks_handlers
        shell_actions_complete)

lemma throws_action: "\<not> unguarded c \<Longrightarrow> never_throws (action e c)"
  by (cases c)
     (simp_all add: create_def bulkImport_def printing_def throws_intros throws_handlers
        shell_actions_complete)

subsection \<open>Calls that the server fails\<close>
















section \<open>How a task ends\<close>

lemma action_exit:
  "fst (action e c w) = Exit n \<Longrightarrow>
   n = 1 \<and> \<not> conn_ok e \<and>
   (\<exists>xs. out (snd (action e c w)) = xs @ [LogError ''Could not connect to MongoDB:'' (Some MongoError)])"
  using exits_action [of e c] by (rule exitsD)

lemma action_guarded:
  assumes "\<not> unguarded c"
  shows "fst (action e c w) = Ret () \<or> (fst (action e c w) = Exit 1 \<and> \<not> conn_ok e)"
proof (cases "fst (action e c w)")
  case (Ret u)
  then show ?thesis by simp
next
  case (Throw x)
  with throws_action [OF assms, of e] show ?thesis by (simp add: never_throws_def)
next
  case (Exit n)
  with action_exit [of e c w n] show ?thesis by simp
next
  case Blocked
  with blocks_action [OF assms, of e] show ?thesis by (simp add: never_blocks_def)
qed

lemma action_returns:
  assumes "\<not> unguarded c" and "conn_ok e"
  shows "fst (action e c w) = Ret ()"
  using action_guarded [OF assms(1), of e w] assms(2) by simp




























section \<open>The collections a command touches\<close>

lemma stays_refl: "stays_within S w w"
  by (simp add: stays_within_def)

lemma stays_trans:
  assumes "stays_within S w w1" and "stays_within S w1 w2"
  shows "stays_within S w w2"
proof -
  from assms(1) obtain n1 where n1: "ops w1 = ops w @ n1" "\<forall>op \<in> set n1. op_collection op \<in> S"
    by (auto simp: stays_within_def)
  from assms(2) obtain n2 where n2: "ops w2 = ops w1 @ n2" "\<forall>op \<in> set n2. op_collection op \<in> S"
    by (auto simp: stays_within_def)
  from n1 n2 have "ops w2 = ops w @ (n1 @ n2)" "\<forall>op \<in> set (n1 @ n2). op_collection op \<in> S"
    by auto
  then have "\<exists>new. ops w2 = ops w @ new \<and> (\<forall>op \<in> set new. op_collection op \<in> S)"
    by blast
  moreover from assms have "\<forall>k. Some k \<notin> S \<longrightarrow> db w2 k = db w k"
    by (simp add: stays_within_def)
  ultimately show ?thesis by (simp add: stays_within_def)
qed

lemma snd_bind:
  "snd (bind m k w) = (case fst (m w) of Ret x \<Rightarrow> snd (k x (snd (m w))) | _ \<Rightarrow> snd (m w))"
  by (simp add: bind_def split: prod.splits res.splits)

lemma snd_try_catch:
  "snd (try_catch m h w) = (case fst (m w) of Throw x \<Rightarrow> snd (h x (snd (m w))) | _ \<Rightarrow> snd (m w))"
  by (simp add: try_catch_def split: prod.splits res.splits)

lemma snd_try_finally:
  "snd (try_finally m f w) =
     (case fst (m w) of
        Exit n \<Rightarrow> snd (m w)
      | Blocked \<Rightarrow> snd (m w)
      | _ \<Rightarrow> snd (f (snd (m w))))"
  by (simp add: try_finally_def split: prod.splits res.splits)

lemma scoped_bind:
  assumes "scoped S m" and "\<And>x. scoped S (k x)"
  shows "scoped S (bind m k)"
  unfolding scoped_def
proof
  fix w
  have a: "stays_within S w (snd (m w))" using assms(1) by (simp add: scoped_def)
  show "stays_within S w (snd (bind m k w))"
  proof (cases "fst (m w)")
    case (Ret x)
    have "stays_within S (snd (m w)) (snd (k x (snd (m w))))"
      using assms(2) [of x] by (simp add: scoped_def)
    with a Ret show ?thesis by (simp add: snd_bind stays_trans [of S w "snd (m w)"])
  qed (simp_all add: snd_bind a)
qed

lemma scoped_seq: "scoped S m \<Longrightarrow> scoped S k \<Longrightarrow> scoped S (seq m k)"
  by (simp add: seq_def scoped_bind)

lemma scoped_try_catch:
  assumes "scoped S m" and "\<And>x. scoped S (h x)"
  shows "scoped S (try_catch m h)"
  unfolding scoped_def
proof
  fix w
  have a: "stays_within S w (snd (m w))" using assms(1) by (simp add: scoped_def)
  show "stays_within S w (snd (try_catch m h w))"
  proof (cases "fst (m w)")
    case (Throw x)
    have "stays_within S (snd (m w)) (snd (h x (snd (m w))))"
      using assms(2) [of x] by (simp add: scoped_def)
    with a Throw show ?thesis by (simp add: snd_try_catch stays_trans [of S w "snd (m w)"])
  qed (simp_all add: snd_try_catch a)
qed

lemma scoped_try_finally:
  assumes "scoped S m" and "scoped S f"
  shows "scoped S (try_finally m f)"
  unfolding scoped_def
proof
  fix w
  have a: "stays_within S w (snd (m w))" using assms(1) by (simp add: scoped_def)
  have b: "stays_within S (snd (m w)) (snd (f (snd (m w))))"
    using assms(2) by (simp add: scoped_def)
  from a b have c: "stays_within S w (snd (f (snd (m w))))" by (rule stays_trans)
  show "stays_within S w (snd (try_finally m f w))"
    by (cases "fst (m w)") (simp_all add: snd_try_finally a c)
qed

lemma scoped_if: "scoped S m \<Longrightarrow> scoped S k \<Longrightarrow> scoped S (if b then m else k)"
  by simp

lemma scoped_basic:
  "scoped S (ret x)"
  "scoped S (throw y)"
  "scoped S (emit o1)"
  "scoped S (logger_error msg eo)"
  "scoped S (logger_warn msg)"
  "scoped S (logger_info ps)"
  "scoped S (console_log ps)"
  "scoped S (logged msg y)"
  "scoped S (parse e s)"
  "scoped S client_close"
  "scoped S (connect e)"
  "scoped S (fs_readFileSync path)"
  "scoped S (fs_writeFileSync path rs)"
  "scoped S (array_filter p d)"
  "scoped S (first_avgScore rs)"
  "scoped S (json2csv_parse rs)"
  "scoped S (ObjectId s)"
  "scoped S (prompt f)"
  "scoped S (inquirer_confirm dflt)"
  "scoped S inquirer_input"
  by (auto simp: scoped_def stays_within_def prog_defs first_avgScore_def json2csv_parse_def
        ObjectId_def fs_readFileSync_def fs_writeFileSync_def Let_def
      split: option.splits json.splits list.splits input.splits)

lemma scoped_call: "op_collection op \<in> S \<Longrightarrow> scoped S (call e op)"
  by (auto simp: scoped_def stays_within_def call_def Let_def)

lemma scoped_read: "scoped S (\<lambda>w. (Ret (f w), w))"
  by (simp add: scoped_def stays_refl)

lemma scoped_write:
  "Some c \<in> S \<Longrightarrow> scoped S (\<lambda>w. (Ret (f w), w\<lparr>db := (db w)(c := g w)\<rparr>))"
  by (auto simp: scoped_def stays_within_def)

lemma scoped_driver:
  "Some c \<in> S \<Longrightarrow> scoped S (insertOne e c d)"
  "Some c \<in> S \<Longrightarrow> scoped S (insertMany e c ds)"
  "Some c \<in> S \<Longrightarrow> scoped S (find e c f)"
  "Some c \<in> S \<Longrightarrow> scoped S (find_sorted e c f s)"
  "Some c \<in> S \<Longrightarrow> scoped S (aggregate e c p)"
  "Some c \<in> S \<Longrightarrow> scoped S (distinct_values e c k)"
  "Some c \<in> S \<Longrightarrow> scoped S (countDocuments e c)"
  "Some c \<in> S \<Longrightarrow> scoped S (updateOne e c f u)"
  "Some c \<in> S \<Longrightarrow> scoped S (deleteMany e c)"
  "None \<in> S \<Longrightarrow> scoped S (stats e)"
  unfolding insertOne_def insertMany_def find_def find_sorted_def aggregate_def
    distinct_values_def countDocuments_def updateOne_def deleteMany_def stats_def
  by (simp_all add: scoped_seq scoped_call scoped_read scoped_write)

lemmas scoped_intros =
  scoped_bind scoped_seq scoped_try_catch scoped_try_finally scoped_if scoped_basic scoped_driver

lemma scoped_handlers:
  "scoped {Some (collectionName e)} (createRecord e d)"
  "scoped {Some (collectionName e)} (queryRecords e s)"
  "scoped {Some (collectionName e)} (bulkInsert e d)"
  "scoped {Some (collectionName e)} (listAllVerbs e)"
  "scoped {Some (collectionName e)} (listAllActors e)"
  "scoped {Some (collectionName e)} (visualizeData s)"
  "scoped {Some (collectionName e)} (aggregateStatements e s)"
  "scoped {Some (collectionName e)} (getLRSStats e)"
  "scoped {Some (collectionName e)} (groupStatementsByDate e s t)"
  "scoped {Some (collectionName e)} (analyzeActivityInteractions e s)"
  "scoped {Some (collectionName e)} (getAverageScoreByActivity e s)"
  "scoped {None} (checkDatabaseHealth e)"
  "scoped {Some (collectionName e)} (resetDatabase e)"
  "scoped {Some (collectionName e)} (bulkStoreStatements e d)"
  "scoped {Some (collectionName e)} (exportStatements e s t)"
  "scoped {Some (collectionName e)} (importStatements e s)"
  "scoped {Some ''verbs''} (registerNewVerb e s t)"
  "scoped {Some ''activityTypes''} (registerNewActivityType e s t)"
  "scoped {Some (collectionName e)} (searchStatementsByContent e s)"
  "scoped {Some (collectionName e)} (listAllObjectTypes e)"
  "scoped {Some (collectionName e)} (visualizeActorProgress e s)"
  "scoped {Some (collectionName e)} (setStatementAuthority e s t)"
  "scoped {Some (collectionName e)} (getMostActiveActors e)"
  "scoped {Some (collectionName e)} (visualizeVerbUsage e d)"
  "scoped {Some (collectionName e)} (listAllExtensions e)"
  "scoped {Some (collectionName e)} (getStatementsByDuration e s t)"
  unfolding handler_defs by (rule scoped_intros | simp)+

lemma scoped_interactiveMode: "scoped S interactiveMode"
  unfolding interactiveMode_def by (rule scoped_intros)+

lemma scoped_action: "\<not> runs_shell c \<Longrightarrow> scoped (scope e c) (action e c)"
  by (cases c)
     (simp_all add: create_def bulkImport_def reset_db_def bulk_store_def validate_cmd_def
        check_profile_def printing_def scoped_intros scoped_handlers scoped_interactiveMode)

lemma shell_action_ops: "runs_shell c \<Longrightarrow> ops (snd (action e c w)) = ops w"
  by (cases c)
     (simp_all add: shell_actions)

text \<open>
  C9, as the code has it. Every call that a command makes on the server is made on the
  configured collection, with three exceptions: \<^verbatim>\<open>register-verb\<close> inserts into the
  collection \<^verbatim>\<open>verbs\<close>, \<^verbatim>\<open>register-activity-type\<close> inserts into the collection
  \<^verbatim>\<open>activityTypes\<close>, and \<^verbatim>\<open>check-health\<close> asks for the statistics of the database.
  A command that runs no shell command leaves every collection outside its scope as it
  was; \<^verbatim>\<open>backup\<close> and \<^verbatim>\<open>restore\<close> make no call through the driver.
\<close>

theorem calls_stay_in_scope:
  "(\<exists>new. ops (snd (action e c w)) = ops w @ new \<and>
      (\<forall>op \<in> set new. op_collection op \<in> scope e c)) \<and>
   (\<not> runs_shell c \<longrightarrow> (\<forall>k. Some k \<notin> scope e c \<longrightarrow> db (snd (action e c w)) k = db w k))"
proof (cases "runs_shell c")
  case True
  then have "ops (snd (action e c w)) = ops w @ []" by (simp add: shell_action_ops)
  then have "\<exists>new. ops (snd (action e c w)) = ops w @ new \<and>
      (\<forall>op \<in> set new. op_collection op \<in> scope e c)"
    by (intro exI [of _ "[]"]) simp
  with True show ?thesis by simp
next
  case False
  then have "stays_within (scope e c) w (snd (action e c w))"
    using scoped_action [of c e] by (simp add: scoped_def)
  with False show ?thesis by (simp add: stays_within_def)
qed

lemma registerNewVerb_reachable:
  assumes "connected w \<or> conn_ok e"
    and "op_ok e (InsertOne ''verbs'' (JObj [(''verb'', JStr verb), (''definition'', JStr definition)]))"
  shows "registerNewVerb e verb definition w =
     (Ret None,
      w\<lparr>connected := False,
        ops := ops w @ [InsertOne ''verbs'' (JObj [(''verb'', JStr verb), (''definition'', JStr definition)])],
        db := (db w)(''verbs'' := db w ''verbs'' @ [JObj [(''verb'', JStr verb), (''definition'', JStr definition)]]),
        out := out w @ [LogInfo [PStr (''Registered new verb: '' @ verb)]]\<rparr>)"
  using assms by (cases "connected w") (auto simp: registerNewVerb_def prog_defs Let_def)

theorem calls_stay_in_scope_witness:
  "db (snd (action sample_env (RegisterVerb ''mastered'' ''to master'') stocked_world)) ''statements'' =
     [example_statement] \<and>
   db (snd (action sample_env ListVerbs stocked_world)) ''verbs'' = []"
proof -
  note T = calls_stay_in_scope [THEN conjunct2, THEN mp, THEN spec, THEN mp]
  have a: "db (snd (action sample_env (RegisterVerb ''mastered'' ''to master'') stocked_world)) ''statements'' =
      db stocked_world ''statements''"
    by (rule T) simp_all
  have b: "db (snd (action sample_env ListVerbs stocked_world)) ''verbs'' = db stocked_world ''verbs''"
    by (rule T) (simp_all add: sample_env_def)
  from a b show ?thesis by (simp add: stocked_world_def fresh_world_def)
qed

text \<open>
  C9 as stated fails: the configured collection is \<^verbatim>\<open>statements\<close>, and
  \<^verbatim>\<open>registerNewVerb\<close> makes its insert on the collection \<^verbatim>\<open>verbs\<close>, which then
  holds the new document.
\<close>

theorem register_verb_counterexample:
  "collectionName sample_env = ''statements'' \<and>
   ops (snd (registerNewVerb sample_env ''mastered'' ''to master'' fresh_world)) =
     [InsertOne ''verbs'' (JObj [(''verb'', JStr ''mastered''), (''definition'', JStr ''to master'')])] \<and>
   db (snd (registerNewVerb sample_env ''mastered'' ''to master'' fresh_world)) ''verbs'' =
     [JObj [(''verb'', JStr ''mastered''), (''definition'', JStr ''to master'')]]"
proof -
  have c: "connected fresh_world \<or> conn_ok sample_env"
    "op_ok sample_env (InsertOne ''verbs'' (JObj [(''verb'', JStr ''mastered''), (''definition'', JStr ''to master'')]))"
    by (simp_all add: sample_env_def)
  show ?thesis
    unfolding registerNewVerb_reachable [OF c]
    by (simp add: sample_env_def fresh_world_def)
qed

end
